theory Spec2Isabelle
  imports Complex_Main "HOL-Library.Word"
begin

section \<open>JavaScript values\<close>

text \<open>
  The provider error mappers and the retry predicate take arguments of the TypeScript
  type \<open>any\<close>, and \<open>JSON.parse\<close> returns such a value. They are modelled by the
  JavaScript values that JSON can describe, together with \<open>undefined\<close>. A number is
  an integer that a double holds exactly (status codes, day counts and time values
  are the only numbers the code handles); arrays, functions and symbols are not
  represented, so no property of an object is callable. No constructor stands for a
  \<open>Date\<close> object: \<open>JSON.parse\<close> never returns one.
\<close>

datatype jsval =
    Undefined
  | Null
  | Bool bool
  | Num int
  | Str string
  | Obj "(string \<times> jsval) list"

text \<open>Truthiness, as \<open>if (v)\<close>, \<open>!v\<close>, \<open>a || b\<close> and \<open>c ? x : y\<close> test it.\<close>

fun truthy :: "jsval \<Rightarrow> bool" where
  "truthy Undefined = False"
| "truthy Null = False"
| "truthy (Bool b) = b"
| "truthy (Num n) = (n \<noteq> 0)"
| "truthy (Str s) = (s \<noteq> [])"
| "truthy (Obj ps) = True"

definition js_or :: "jsval \<Rightarrow> jsval \<Rightarrow> jsval" where
  "js_or a b = (if truthy a then a else b)"

text \<open>
  \<open>v.p\<close> on a value that is neither \<open>null\<close> nor \<open>undefined\<close>: the own property of an
  object, \<open>undefined\<close> when it has none and on the primitive values (none of the
  property names the code reads is defined on a boolean, a number or a string).
\<close>

fun own_prop :: "jsval \<Rightarrow> string \<Rightarrow> jsval" where
  "own_prop (Obj ps) p = (case map_of ps p of None \<Rightarrow> Undefined | Some v \<Rightarrow> v)"
| "own_prop v p = Undefined"

definition nullish :: "jsval \<Rightarrow> bool" where
  "nullish v = (v = Null \<or> v = Undefined)"

text \<open>Optional chaining \<open>v?.p\<close>.\<close>

definition opt_prop :: "jsval \<Rightarrow> string \<Rightarrow> jsval" where
  "opt_prop v p = (if nullish v then Undefined else own_prop v p)"

section \<open>Error taxonomy\<close>

text \<open>
  \<open>BYOKError\<close> and its subclasses. \<open>name\<close> is \<open>this.constructor.name\<close>; \<open>message\<close> is
  what \<open>super(message)\<close> leaves in the \<open>Error\<close>: the string conversion of the
  argument, and no own message when the argument is \<open>undefined\<close>.
\<close>

record BYOKError =
  name :: string
  message :: "string option"
  code :: string
  isRetryable :: bool
  userAction :: "string option"
  details :: jsval

text \<open>
  What a \<open>throw\<close> can carry: an \<open>Error\<close> made by the repository's code, the
  \<open>TypeError\<close> of the engine (a property read on \<open>null\<close> or \<open>undefined\<close>, a call of
  something that is no function, a value that cannot be converted to a string), an
  error raised inside a library (Node's \<open>crypto\<close>, \<open>JSON\<close>) with its \<open>code\<close> when it
  has one, a classified error, or any other value.
\<close>

datatype lib_error = LibError (lib_name: string) (lib_code: "string option") (lib_message: string)

datatype thrown =
    Error string
  | TypeError string
  | Lib lib_error
  | Byok BYOKError
  | Raw jsval

text \<open>\<open>v.p\<close> on any value: the read throws on \<open>null\<close> and \<open>undefined\<close>.\<close>

definition nullish_text :: "jsval \<Rightarrow> string" where
  "nullish_text v = (if v = Null then ''null'' else ''undefined'')"

definition get_prop :: "jsval \<Rightarrow> string \<Rightarrow> thrown + jsval" where
  "get_prop v p =
     (if nullish v then Inl (TypeError (''Cannot read properties of '' @ nullish_text v))
      else Inr (own_prop v p))"

subsection \<open>Conversion to a string\<close>

text \<open>
  The conversion that a template literal and the \<open>Error\<close> constructor apply
  (\<open>ToString\<close> of the language). An integer below \<open>2^53\<close> in magnitude is printed with
  its decimal digits. Beyond that the engine prints the shortest digits that identify
  the double, in exponent form from \<open>10^21\<close> on; that text is not computed here but
  taken from \<open>large\<close>, a parameter of every function that converts. An object is
  converted through its \<open>toString\<close>, then its \<open>valueOf\<close>: an own \<open>toString\<close> property
  of an object of the model is no function, and neither an own \<open>valueOf\<close> nor the
  inherited one gives a primitive value, so the conversion throws a \<open>TypeError\<close>;
  without an own \<open>toString\<close> the inherited one gives \<open>[object Object]\<close>.
\<close>

fun string_of_nat :: "nat \<Rightarrow> string" where
  "string_of_nat n =
     (if n < 10 then [''0123456789'' ! n]
      else string_of_nat (n div 10) @ [''0123456789'' ! (n mod 10)])"

declare string_of_nat.simps [simp del]

definition decimal_text :: "int \<Rightarrow> string" where
  "decimal_text n = (if n < 0 then ''-'' @ string_of_nat (nat (- n)) else string_of_nat (nat n))"

definition number_text :: "(int \<Rightarrow> string) \<Rightarrow> int \<Rightarrow> string" where
  "number_text large n = (if \<bar>n\<bar> < 2 ^ 53 then decimal_text n else large n)"

fun ToString :: "(int \<Rightarrow> string) \<Rightarrow> jsval \<Rightarrow> thrown + string" where
  "ToString large Undefined = Inr ''undefined''"
| "ToString large Null = Inr ''null''"
| "ToString large (Bool b) = Inr (if b then ''true'' else ''false'')"
| "ToString large (Num n) = Inr (number_text large n)"
| "ToString large (Str s) = Inr s"
| "ToString large (Obj ps) =
     (case map_of ps ''toString'' of
        None \<Rightarrow> Inr ''[object Object]''
      | Some v \<Rightarrow> Inl (TypeError ''Cannot convert object to primitive value''))"

text \<open>\<open>super(message)\<close>: \<open>Error\<close> converts every message but \<open>undefined\<close>.\<close>

definition error_message :: "(int \<Rightarrow> string) \<Rightarrow> jsval \<Rightarrow> thrown + string option" where
  "error_message large m =
     (if m = Undefined then Inr None
      else case ToString large m of Inl e \<Rightarrow> Inl e | Inr s \<Rightarrow> Inr (Some s))"

subsection \<open>Error classes\<close>

text \<open>
  A constructor that converts one of its arguments can throw; the arguments of
  \<open>super(...)\<close> are evaluated in order, and each constructor converts at most one
  value.
\<close>

definition AuthenticationError :: "string \<Rightarrow> jsval \<Rightarrow> BYOKError" where
  "AuthenticationError provider dets =
     \<lparr> name = ''AuthenticationError'',
       message = Some (''Authentication failed for '' @ provider),
       code = ''AUTH_FAILED'',
       isRetryable = False,
       userAction = Some ''Please check your API key and try again'',
       details = dets \<rparr>"

text \<open>\<open>{ ...details, retryAfter }\<close>: the own properties of \<open>details\<close>, then the new one.\<close>

fun spread :: "jsval \<Rightarrow> (string \<times> jsval) list" where
  "spread (Obj ps) = ps"
| "spread v = []"

definition with_prop :: "jsval \<Rightarrow> string \<Rightarrow> jsval \<Rightarrow> jsval" where
  "with_prop dets p v = Obj (filter (\<lambda>kv. fst kv \<noteq> p) (spread dets) @ [(p, v)])"

definition RateLimitError ::
  "(int \<Rightarrow> string) \<Rightarrow> string \<Rightarrow> jsval \<Rightarrow> jsval \<Rightarrow> thrown + BYOKError" where
  "RateLimitError large provider retryAfter dets =
     (case (if truthy retryAfter
            then (case ToString large retryAfter of
                    Inl e \<Rightarrow> Inl e
                  | Inr s \<Rightarrow> Inr (''Please wait '' @ s @ '' seconds''))
            else Inr ''Please try again later'') of
        Inl e \<Rightarrow> Inl e
      | Inr action \<Rightarrow>
          Inr \<lparr> name = ''RateLimitError'',
                message = Some (''Rate limit exceeded for '' @ provider),
                code = ''RATE_LIMIT'',
                isRetryable = True,
                userAction = Some action,
                details = with_prop dets ''retryAfter'' retryAfter \<rparr>)"

definition NetworkError :: "string \<Rightarrow> jsval \<Rightarrow> BYOKError" where
  "NetworkError provider originalError =
     \<lparr> name = ''NetworkError'',
       message = Some (''Network error connecting to '' @ provider),
       code = ''NETWORK_ERROR'',
       isRetryable = True,
       userAction = Some ''Please check your internet connection'',
       details = Obj [(''originalError'', opt_prop originalError ''message'')] \<rparr>"

definition ModelNotFoundError :: "(int \<Rightarrow> string) \<Rightarrow> jsval \<Rightarrow> string \<Rightarrow> thrown + BYOKError" where
  "ModelNotFoundError large modelId provider =
     (case ToString large modelId of
        Inl e \<Rightarrow> Inl e
      | Inr model \<Rightarrow>
          Inr \<lparr> name = ''ModelNotFoundError'',
                message = Some (''Model '' @ model @ '' not found for provider '' @ provider),
                code = ''MODEL_NOT_FOUND'',
                isRetryable = False,
                userAction = Some ''Please check the model ID or select a different model'',
                details = Obj [(''modelId'', modelId), (''provider'', Str provider)] \<rparr>)"

definition InvalidRequestError ::
  "(int \<Rightarrow> string) \<Rightarrow> jsval \<Rightarrow> string \<Rightarrow> jsval \<Rightarrow> thrown + BYOKError" where
  "InvalidRequestError large msg provider dets =
     (case error_message large msg of
        Inl e \<Rightarrow> Inl e
      | Inr m \<Rightarrow>
          Inr \<lparr> name = ''InvalidRequestError'',
                message = m,
                code = ''INVALID_REQUEST'',
                isRetryable = False,
                userAction = Some ''Please check your request parameters'',
                details = with_prop dets ''provider'' (Str provider) \<rparr>)"

definition QuotaExceededError :: "string \<Rightarrow> string \<Rightarrow> BYOKError" where
  "QuotaExceededError provider quotaType =
     \<lparr> name = ''QuotaExceededError'',
       message = Some (quotaType @ '' quota exceeded for '' @ provider),
       code = ''QUOTA_EXCEEDED'',
       isRetryable = False,
       userAction = Some ''Please upgrade your plan or wait for quota reset'',
       details = Obj [(''provider'', Str provider), (''quotaType'', Str quotaType)] \<rparr>"

text \<open>
  \<open>new BYOKError(message, code, isRetryable, userAction, details)\<close>, as the mappers
  build the errors that belong to no subclass.
\<close>

definition new_BYOKError ::
  "(int \<Rightarrow> string) \<Rightarrow> jsval \<Rightarrow> string \<Rightarrow> bool \<Rightarrow> string option \<Rightarrow> jsval \<Rightarrow> thrown + BYOKError" where
  "new_BYOKError large msg c retryable action dets =
     (case error_message large msg of
        Inl e \<Rightarrow> Inl e
      | Inr m \<Rightarrow>
          Inr \<lparr> name = ''BYOKError'',
                message = m,
                code = c,
                isRetryable = retryable,
                userAction = action,
                details = dets \<rparr>)"

section \<open>Provider error mapper\<close>

text \<open>
  \<open>const status = error.status || error.response?.status\<close>, the same in the three
  mappers.
\<close>

definition error_status :: "jsval \<Rightarrow> jsval" where
  "error_status error =
     js_or (own_prop error ''status'') (opt_prop (own_prop error ''response'') ''status'')"

text \<open>\<open>const message = error.error?.message || error.message\<close>.\<close>

definition anthropic_message :: "jsval \<Rightarrow> jsval" where
  "anthropic_message error =
     js_or (opt_prop (own_prop error ''error'') ''message'') (own_prop error ''message'')"

text \<open>\<open>error.response?.headers?.['retry-after']\<close> and \<open>error.model || 'unknown'\<close>.\<close>

definition retry_after :: "jsval \<Rightarrow> jsval" where
  "retry_after error = opt_prop (opt_prop (own_prop error ''response'') ''headers'') ''retry-after''"

definition model_or_unknown :: "jsval \<Rightarrow> jsval" where
  "model_or_unknown error = js_or (own_prop error ''model'') (Str ''unknown'')"

text \<open>
  \<open>ErrorMapper.mapAnthropicError\<close>. The first statement reads \<open>error.status\<close>, which
  throws when \<open>error\<close> is \<open>null\<close> or \<open>undefined\<close>; after it every read is on a value
  known to be neither. The \<open>switch\<close> compares with \<open>===\<close>. The constructors of the
  cases 429, 404, 400 and of the fall-through convert a value to a string and can
  throw.
\<close>

definition mapAnthropicError :: "(int \<Rightarrow> string) \<Rightarrow> jsval \<Rightarrow> thrown + BYOKError" where
  "mapAnthropicError large error =
     (case get_prop error ''status'' of
        Inl e \<Rightarrow> Inl e
      | Inr _ \<Rightarrow>
          let status = error_status error;
              msg = anthropic_message error
          in
            if status = Num 401
              then Inr (AuthenticationError ''Anthropic'' (Obj [(''status'', status)]))
            else if status = Num 429 then
              (let retryAfter = retry_after error
               in RateLimitError large ''Anthropic'' retryAfter Undefined)
            else if status = Num 404 then
              ModelNotFoundError large (model_or_unknown error) ''Anthropic''
            else if status = Num 400 then
              InvalidRequestError large msg ''Anthropic'' (Obj [(''status'', status)])
            else if own_prop error ''code'' = Str ''ENOTFOUND''
                    \<or> own_prop error ''code'' = Str ''ECONNREFUSED''
              then Inr (NetworkError ''Anthropic'' error)
            else new_BYOKError large msg ''UNKNOWN_ERROR'' False None (Obj [(''status'', status)]))"

text \<open>
  \<open>ErrorMapper.mapOpenAIError\<close> and \<open>ErrorMapper.mapGeminiError\<close> begin with the same
  read of \<open>error.status\<close>; they dispatch on an error code and on an error reason.
\<close>

definition mapOpenAIError :: "(int \<Rightarrow> string) \<Rightarrow> jsval \<Rightarrow> thrown + BYOKError" where
  "mapOpenAIError large error =
     (case get_prop error ''status'' of
        Inl e \<Rightarrow> Inl e
      | Inr _ \<Rightarrow>
          let status = error_status error;
              c = js_or (opt_prop (own_prop error ''error'') ''code'') (own_prop error ''code'')
          in
            if c = Str ''invalid_api_key''
              then Inr (AuthenticationError ''OpenAI'' (Obj [(''code'', c)]))
            else if c = Str ''rate_limit_exceeded''
              then RateLimitError large ''OpenAI'' Undefined Undefined
            else if c = Str ''model_not_found''
              then ModelNotFoundError large (model_or_unknown error) ''OpenAI''
            else if c = Str ''quota_exceeded'' then Inr (QuotaExceededError ''OpenAI'' ''tokens'')
            else if status = Num 503 then
              new_BYOKError large (Str ''OpenAI service unavailable'') ''SERVICE_UNAVAILABLE'' True
                None Undefined
            else new_BYOKError large (own_prop error ''message'') ''UNKNOWN_ERROR'' False None
                   (Obj [(''code'', c), (''status'', status)]))"

definition mapGeminiError :: "(int \<Rightarrow> string) \<Rightarrow> jsval \<Rightarrow> thrown + BYOKError" where
  "mapGeminiError large error =
     (case get_prop error ''status'' of
        Inl e \<Rightarrow> Inl e
      | Inr _ \<Rightarrow>
          let status = error_status error;
              reason = opt_prop (opt_prop (own_prop error ''error'') ''error'') ''reason''
          in
            if reason = Str ''API_KEY_INVALID''
              then Inr (AuthenticationError ''Gemini'' Undefined)
            else if reason = Str ''RATE_LIMIT_EXCEEDED''
              then RateLimitError large ''Gemini'' Undefined Undefined
            else if reason = Str ''RESOURCE_EXHAUSTED''
              then Inr (QuotaExceededError ''Gemini'' ''requests'')
            else if status = Num 404
              then ModelNotFoundError large (model_or_unknown error) ''Gemini''
            else new_BYOKError large (own_prop error ''message'') ''UNKNOWN_ERROR'' False None
                   (Obj [(''reason'', reason), (''status'', status)]))"

section \<open>Retry strategy\<close>

text \<open>
  \<open>RetryOptions\<close>. The operation \<open>fn\<close> is a closure with effects of its own: it is a
  function on a state \<open>'s\<close> that returns what the call resolved to or threw. The
  predicate and the callback are JavaScript functions and can throw as well. Delays
  are real numbers (the rounding of doubles is not modelled), and \<open>Math.random()\<close> is
  read from a tape \<open>rand\<close>, indexed by the attempt that asks for it.
\<close>

record 's RetryOptions =
  maxRetries :: int
  initialDelayMs :: real
  maxDelayMs :: real
  backoffMultiplier :: real
  shouldRetry :: "(thrown \<Rightarrow> thrown + bool) option"
  onRetry :: "(nat \<Rightarrow> thrown \<Rightarrow> real \<Rightarrow> 's \<Rightarrow> (thrown + unit) \<times> 's) option"

text \<open>
  \<open>Partial<RetryOptions>\<close>: \<open>None\<close> is an absent key. The two optional members can
  also be present and \<open>undefined\<close> (\<open>Some None\<close>); the numbers, when given, are
  numbers.
\<close>

record 's PartialRetryOptions =
  maxRetries_given :: "int option"
  initialDelayMs_given :: "real option"
  maxDelayMs_given :: "real option"
  backoffMultiplier_given :: "real option"
  shouldRetry_given :: "(thrown \<Rightarrow> thrown + bool) option option"
  onRetry_given :: "(nat \<Rightarrow> thrown \<Rightarrow> real \<Rightarrow> 's \<Rightarrow> (thrown + unit) \<times> 's) option option"

text \<open>The default predicate of \<open>DEFAULT_OPTIONS\<close>.\<close>

definition connection_code :: "jsval \<Rightarrow> bool" where
  "connection_code c = (c = Str ''ECONNRESET'' \<or> c = Str ''ETIMEDOUT'' \<or> c = Str ''ENOTFOUND'')"

fun default_shouldRetry :: "thrown \<Rightarrow> thrown + bool" where
  "default_shouldRetry (Byok e) = Inr (isRetryable e)"
| "default_shouldRetry (Error m) = Inr False"
| "default_shouldRetry (TypeError m) = Inr False"
| "default_shouldRetry (Lib e) =
     Inr (case lib_code e of None \<Rightarrow> False | Some c \<Rightarrow> connection_code (Str c))"
| "default_shouldRetry (Raw v) =
     (case get_prop v ''code'' of Inl e \<Rightarrow> Inl e | Inr c \<Rightarrow> Inr (connection_code c))"

definition DEFAULT_OPTIONS :: "'s RetryOptions" where
  "DEFAULT_OPTIONS =
     \<lparr> maxRetries = 3, initialDelayMs = 1000, maxDelayMs = 30000, backoffMultiplier = 2,
       shouldRetry = Some default_shouldRetry, onRetry = None \<rparr>"

text \<open>\<open>{ ...RetryStrategy.DEFAULT_OPTIONS, ...options }\<close>.\<close>

definition merge_options :: "'s RetryOptions \<Rightarrow> 's PartialRetryOptions \<Rightarrow> 's RetryOptions" where
  "merge_options d options =
     \<lparr> maxRetries = (case maxRetries_given options of None \<Rightarrow> maxRetries d | Some v \<Rightarrow> v),
       initialDelayMs = (case initialDelayMs_given options of None \<Rightarrow> initialDelayMs d | Some v \<Rightarrow> v),
       maxDelayMs = (case maxDelayMs_given options of None \<Rightarrow> maxDelayMs d | Some v \<Rightarrow> v),
       backoffMultiplier =
         (case backoffMultiplier_given options of None \<Rightarrow> backoffMultiplier d | Some v \<Rightarrow> v),
       shouldRetry = (case shouldRetry_given options of None \<Rightarrow> shouldRetry d | Some v \<Rightarrow> v),
       onRetry = (case onRetry_given options of None \<Rightarrow> onRetry d | Some v \<Rightarrow> v) \<rparr>"

text \<open>
  The delay before the retry that follows attempt number \<open>attempt\<close>:
  \<open>min(baseDelay + jitter, maxDelayMs)\<close>.
\<close>

definition retry_delay :: "'s RetryOptions \<Rightarrow> (nat \<Rightarrow> real) \<Rightarrow> nat \<Rightarrow> real" where
  "retry_delay opts rand attempt =
     (let baseDelay = initialDelayMs opts * backoffMultiplier opts ^ attempt;
          jitter = rand attempt * 0.1 * baseDelay
      in min (baseDelay + jitter) (maxDelayMs opts))"

text \<open>\<open>opts.shouldRetry ? opts.shouldRetry(error) : true\<close>.\<close>

definition retry_decision :: "'s RetryOptions \<Rightarrow> thrown \<Rightarrow> thrown + bool" where
  "retry_decision opts error = (case shouldRetry opts of None \<Rightarrow> Inr True | Some p \<Rightarrow> p error)"

text \<open>\<open>if (opts.onRetry) { opts.onRetry(attempt + 1, error, delay); }\<close>.\<close>

definition retry_callback ::
  "'s RetryOptions \<Rightarrow> nat \<Rightarrow> thrown \<Rightarrow> real \<Rightarrow> 's \<Rightarrow> (thrown + unit) \<times> 's" where
  "retry_callback opts attempt error delay st =
     (case onRetry opts of
        None \<Rightarrow> (Inr (), st)
      | Some callback \<Rightarrow> callback (attempt + 1) error delay st)"

text \<open>
  The \<open>for\<close> loop of \<open>executeWithRetry\<close>, from the value \<open>attempt\<close> of its counter.
  The result is what the call resolves to (\<open>Inr\<close>) or rejects with (\<open>Inl\<close>), the state
  the operation and the callback left, and the delays awaited so far, in order.
  The predicate is applied before the attempt count is looked at, as in the source.
\<close>

function retry_loop ::
  "'s RetryOptions \<Rightarrow> ('s \<Rightarrow> (thrown + 'a) \<times> 's) \<Rightarrow> (nat \<Rightarrow> real) \<Rightarrow> nat \<Rightarrow> thrown \<Rightarrow> 's \<Rightarrow> real list
     \<Rightarrow> (thrown + 'a) \<times> 's \<times> real list" where
  "retry_loop opts fn rand attempt lastError st waits =
     (if int attempt \<le> maxRetries opts then
        (case fn st of
           (Inr v, st1) \<Rightarrow> (Inr v, st1, waits)
         | (Inl error, st1) \<Rightarrow>
             (case retry_decision opts error of
                Inl thrown_by_predicate \<Rightarrow> (Inl thrown_by_predicate, st1, waits)
              | Inr retry \<Rightarrow>
                  if int attempt = maxRetries opts \<or> \<not> retry then (Inl error, st1, waits)
                  else
                    (let delay = retry_delay opts rand attempt in
                     case retry_callback opts attempt error delay st1 of
                       (Inl thrown_by_callback, st2) \<Rightarrow> (Inl thrown_by_callback, st2, waits)
                     | (Inr u, st2) \<Rightarrow>
                         retry_loop opts fn rand (Suc attempt) error st2 (waits @ [delay]))))
      else (Inl lastError, st, waits))"
  by pat_completeness auto
termination
  by (relation "measure (\<lambda>(opts, fn, rand, attempt, lastError, st, waits).
        nat (maxRetries opts + 1 - int attempt))") auto

declare retry_loop.simps [simp del]

text \<open>\<open>executeWithRetry\<close>: \<open>lastError\<close> starts out \<open>undefined\<close>.\<close>

definition executeWithRetry ::
  "('s \<Rightarrow> (thrown + 'a) \<times> 's) \<Rightarrow> 's PartialRetryOptions \<Rightarrow> (nat \<Rightarrow> real) \<Rightarrow> 's
     \<Rightarrow> (thrown + 'a) \<times> 's \<times> real list" where
  "executeWithRetry fn options rand st =
     retry_loop (merge_options DEFAULT_OPTIONS options) fn rand 0 (Raw Undefined) st []"

text \<open>
  A run of retried failures: from the loop counter \<open>a\<close>, every attempt up to but not
  including \<open>b\<close> fails with an error that the predicate accepts, below the bound, and
  whose callback returns; the loop then stands at \<open>b\<close>. A configuration is the
  counter, \<open>lastError\<close>, the state and the delays awaited.
\<close>

inductive retried ::
  "'s RetryOptions \<Rightarrow> ('s \<Rightarrow> (thrown + 'a) \<times> 's) \<Rightarrow> (nat \<Rightarrow> real)
     \<Rightarrow> nat \<times> thrown \<times> 's \<times> real list \<Rightarrow> nat \<times> thrown \<times> 's \<times> real list \<Rightarrow> bool"
  for opts :: "'s RetryOptions" and fn :: "'s \<Rightarrow> (thrown + 'a) \<times> 's" and rand :: "nat \<Rightarrow> real" where
  retried_none: "retried opts fn rand c c"
| retried_step:
    "int a < maxRetries opts \<Longrightarrow>
     fn st = (Inl error, st1) \<Longrightarrow>
     retry_decision opts error = Inr True \<Longrightarrow>
     retry_callback opts a error (retry_delay opts rand a) st1 = (Inr (), st2) \<Longrightarrow>
     retried opts fn rand (Suc a, error, st2, ws @ [retry_delay opts rand a]) c \<Longrightarrow>
     retried opts fn rand (a, lastError, st, ws) c"

text \<open>
  The operation of the repository's retry test: it counts its calls and fails until the
  third.
\<close>

definition flaky :: "nat \<Rightarrow> (thrown + string) \<times> nat" where
  "flaky attempts =
     (if Suc attempts < 3 then (Inl (Error ''Temporary failure''), Suc attempts)
      else (Inr ''success'', Suc attempts))"

definition flaky_options :: "nat PartialRetryOptions" where
  "flaky_options =
     \<lparr> maxRetries_given = Some 3, initialDelayMs_given = Some 10, maxDelayMs_given = None,
       backoffMultiplier_given = None, shouldRetry_given = Some (Some (\<lambda>e. Inr True)),
       onRetry_given = None \<rparr>"

section \<open>Secure key manager\<close>

subsection \<open>Environment and state\<close>

type_synonym bytes = "8 word list"

record ApiKeyRotation =
  lastRotated :: int
  rotationReminder :: bool
  autoRotateAfterDays :: "int option"

record KeyUsageAudit =
  keyId :: string
  lastUsed :: int
  requestCount :: nat
  failedAttempts :: nat

text \<open>
  What the class takes from outside the repository: \<open>vscode.env.machineId\<close>, Node's
  \<open>crypto\<close> (\<open>randomBytes\<close> as a tape indexed by the number of earlier calls,
  \<open>pbkdf2Sync\<close> with its fixed iteration count, key length and digest,
  \<open>createCipheriv\<close> and \<open>createDecipheriv\<close>, the SHA-256 hex digest), the codecs of
  \<open>Buffer\<close> and \<open>JSON\<close>. A cipher object is the function from the plaintext to the
  ciphertext and the authentication tag; a decipher object is the function from the
  tag and the ciphertext to the plaintext, or to the error \<open>final()\<close> throws.
  \<open>JSON.stringify\<close> is applied to rotation records only. A \<open>Date\<close> is its time value
  in milliseconds.
\<close>

record env =
  machineId :: string
  randomBytes :: "nat \<Rightarrow> nat \<Rightarrow> bytes"
  pbkdf2Sync :: "string \<Rightarrow> string \<Rightarrow> bytes"
  createCipheriv :: "jsval \<Rightarrow> bytes \<Rightarrow> bytes \<Rightarrow> lib_error + (bytes \<Rightarrow> bytes \<times> bytes)"
  createDecipheriv ::
    "jsval \<Rightarrow> bytes \<Rightarrow> bytes \<Rightarrow> lib_error + (bytes \<Rightarrow> bytes \<Rightarrow> lib_error + bytes)"
  toBase64 :: "bytes \<Rightarrow> string"
  fromBase64 :: "string \<Rightarrow> bytes"
  utf8 :: "string \<Rightarrow> bytes"
  fromUtf8 :: "bytes \<Rightarrow> string"
  sha256hex :: "string \<Rightarrow> string"
  JSON_stringify :: "ApiKeyRotation \<Rightarrow> string"
  JSON_parse :: "string \<Rightarrow> lib_error + jsval"

text \<open>
  The secret storage (one object, shared by \<open>SecureKeyManager\<close> and
  \<open>BYOKStorageService\<close>), the audit map of the manager, and the number of
  \<open>randomBytes\<close> calls made so far.
\<close>

record state =
  secrets :: "string \<rightharpoonup> string"
  keyAudits :: "string \<rightharpoonup> KeyUsageAudit"
  randomCalls :: nat

definition storage_store :: "string \<Rightarrow> string \<Rightarrow> state \<Rightarrow> state" where
  "storage_store k v st = st\<lparr>secrets := (secrets st)(k \<mapsto> v)\<rparr>"

definition storage_delete :: "string \<Rightarrow> state \<Rightarrow> state" where
  "storage_delete k st = st\<lparr>secrets := (secrets st)(k := None)\<rparr>"

text \<open>\<open>if (value)\<close> on what \<open>storage.get\<close> resolved to: an absent or empty string is falsy.\<close>

definition present :: "string option \<Rightarrow> bool" where
  "present v = (case v of None \<Rightarrow> False | Some s \<Rightarrow> s \<noteq> [])"

subsection \<open>Envelope encryption\<close>

text \<open>The static member \<open>SecureKeyManager.ENCRYPTION_ALGORITHM\<close>.\<close>

definition ENCRYPTION_ALGORITHM :: string where
  "ENCRYPTION_ALGORITHM = ''aes-256-gcm''"

text \<open>
  The expression \<open>this.ENCRYPTION_ALGORITHM\<close> of \<open>encrypt\<close> and \<open>decrypt\<close>. The member
  is declared \<open>static\<close>, so it is a property of the constructor \<open>SecureKeyManager\<close>;
  an instance has the own properties \<open>keys\<close>, \<open>keyAudits\<close>, \<open>context\<close> and \<open>storage\<close>,
  and its prototype holds the methods. The read through \<open>this\<close> finds nothing.
\<close>

definition this_ENCRYPTION_ALGORITHM :: jsval where
  "this_ENCRYPTION_ALGORITHM = Undefined"

definition getDerivedKey :: "env \<Rightarrow> state \<Rightarrow> bytes \<times> state" where
  "getDerivedKey E st =
     (let salt = secrets st ''byok.encryption.salt'' in
      if \<not> present salt then
        (let newSalt = toBase64 E (randomBytes E (randomCalls st) 32);
             st1 = storage_store ''byok.encryption.salt'' newSalt
                     (st\<lparr>randomCalls := Suc (randomCalls st)\<rparr>)
         in (pbkdf2Sync E (machineId E) newSalt, st1))
      else (pbkdf2Sync E (machineId E) (the salt), st))"

definition encrypt :: "env \<Rightarrow> state \<Rightarrow> string \<Rightarrow> (thrown + string) \<times> state" where
  "encrypt E st text =
     (let (key, st1) = getDerivedKey E st;
          iv = randomBytes E (randomCalls st1) 16;
          st2 = st1\<lparr>randomCalls := Suc (randomCalls st1)\<rparr>
      in case createCipheriv E this_ENCRYPTION_ALGORITHM key iv of
           Inl e \<Rightarrow> (Inl (Lib e), st2)
         | Inr cipher \<Rightarrow>
             (let (encrypted, authTag) = cipher (utf8 E text);
                  combined = iv @ authTag @ encrypted
              in (Inr (toBase64 E combined), st2)))"

definition decrypt :: "env \<Rightarrow> state \<Rightarrow> string \<Rightarrow> (thrown + string) \<times> state" where
  "decrypt E st encryptedData =
     (let (key, st1) = getDerivedKey E st;
          combined = fromBase64 E encryptedData;
          iv = take 16 combined;
          authTag = take 16 (drop 16 combined);
          encrypted = drop 32 combined
      in case createDecipheriv E this_ENCRYPTION_ALGORITHM key iv of
           Inl e \<Rightarrow> (Inl (Lib e), st1)
         | Inr decipher \<Rightarrow>
             (case decipher authTag encrypted of
                Inl e \<Rightarrow> (Inl (Lib e), st1)
              | Inr decrypted \<Rightarrow> (Inr (fromUtf8 E decrypted), st1)))"

subsection \<open>Audit\<close>

definition hashKeyId :: "env \<Rightarrow> string \<Rightarrow> string" where
  "hashKeyId E modelId = sha256hex E modelId"

definition updateAudit :: "env \<Rightarrow> int \<Rightarrow> string \<Rightarrow> bool \<Rightarrow> state \<Rightarrow> state" where
  "updateAudit E now modelId success st =
     (let hashedId = hashKeyId E modelId in
      case keyAudits st hashedId of
        Some existing \<Rightarrow>
          st\<lparr>keyAudits := (keyAudits st)(hashedId \<mapsto>
               existing\<lparr>lastUsed := now,
                        requestCount := requestCount existing + 1,
                        failedAttempts := (if \<not> success then failedAttempts existing + 1
                                           else failedAttempts existing)\<rparr>)\<rparr>
      | None \<Rightarrow>
          st\<lparr>keyAudits := (keyAudits st)(hashedId \<mapsto>
               \<lparr> keyId = hashedId, lastUsed = now, requestCount = 1,
                 failedAttempts = (if success then 0 else 1) \<rparr>)\<rparr>)"

definition getAudit :: "env \<Rightarrow> state \<Rightarrow> string \<Rightarrow> KeyUsageAudit option" where
  "getAudit E st modelId = keyAudits st (hashKeyId E modelId)"

subsection \<open>Rotation\<close>

definition initializeRotation :: "env \<Rightarrow> int \<Rightarrow> string \<Rightarrow> state \<Rightarrow> state" where
  "initializeRotation E now modelId st =
     (let rotation = \<lparr> lastRotated = now, rotationReminder = True, autoRotateAfterDays = Some 90 \<rparr>
      in storage_store (''byok.rotation.'' @ modelId) (JSON_stringify E rotation) st)"

definition getRotationData :: "env \<Rightarrow> state \<Rightarrow> string \<Rightarrow> thrown + jsval" where
  "getRotationData E st modelId =
     (let data = secrets st (''byok.rotation.'' @ modelId) in
      if present data then
        (case JSON_parse E (the data) of Inl e \<Rightarrow> Inl (Lib e) | Inr v \<Rightarrow> Inr v)
      else Inr Null)"

text \<open>
  The argument of \<open>daysSince\<close> is typed \<open>Date\<close>, but the only caller passes a property
  of what \<open>JSON.parse\<close> returned. \<open>date.getTime()\<close> returns the time value of a \<open>Date\<close>
  and throws a \<open>TypeError\<close> on every other value: none has a callable \<open>getTime\<close>.
\<close>

datatype date_argument = DateObject int | NotADate jsval

definition daysSince :: "int \<Rightarrow> date_argument \<Rightarrow> thrown + int" where
  "daysSince now date =
     (case date of
        DateObject t \<Rightarrow> Inr ((now - t) div (1000 * 60 * 60 * 24))
      | NotADate v \<Rightarrow>
          if nullish v then Inl (TypeError (''Cannot read properties of '' @ nullish_text v))
          else Inl (TypeError ''date.getTime is not a function''))"

text \<open>
  The number a value is converted to by \<open>>=\<close>; \<open>None\<close> is \<open>NaN\<close>. A string is read as
  an unsigned decimal integer, every other string counts as \<open>NaN\<close>.
\<close>

fun decimal :: "string \<Rightarrow> nat \<Rightarrow> nat option" where
  "decimal [] acc = Some acc"
| "decimal (c # cs) acc =
     (case map_of (zip ''0123456789'' [0 ..< 10]) c of
        None \<Rightarrow> None
      | Some d \<Rightarrow> decimal cs (10 * acc + d))"

fun ToNumber :: "jsval \<Rightarrow> int option" where
  "ToNumber Undefined = None"
| "ToNumber Null = Some 0"
| "ToNumber (Bool b) = Some (if b then 1 else 0)"
| "ToNumber (Num n) = Some n"
| "ToNumber (Str s) = map_option int (decimal s 0)"
| "ToNumber (Obj ps) = None"

definition js_ge :: "int \<Rightarrow> jsval \<Rightarrow> bool" where
  "js_ge n v = (case ToNumber v of None \<Rightarrow> False | Some m \<Rightarrow> n \<ge> m)"

definition checkRotationNeeded :: "env \<Rightarrow> int \<Rightarrow> state \<Rightarrow> string \<Rightarrow> thrown + bool" where
  "checkRotationNeeded E now st modelId =
     (case getRotationData E st modelId of
        Inl e \<Rightarrow> Inl e
      | Inr rotationData \<Rightarrow>
          if \<not> truthy rotationData \<or> \<not> truthy (own_prop rotationData ''autoRotateAfterDays'')
          then Inr False
          else
            (case daysSince now (NotADate (own_prop rotationData ''lastRotated'')) of
               Inl e \<Rightarrow> Inl e
             | Inr daysSinceRotation \<Rightarrow>
                 Inr (js_ge daysSinceRotation (own_prop rotationData ''autoRotateAfterDays''))))"

subsection \<open>Credential store\<close>

definition key_chars :: string where
  "key_chars = ''abcdefghijklmnopqrstuvwxyzABCDEFGHIJKLMNOPQRSTUVWXYZ0123456789_-''"

text \<open>\<open>apiKey.length >= 20 && /^[a-zA-Z0-9_-]+$/.test(apiKey)\<close>.\<close>

definition isValidApiKey :: "string \<Rightarrow> bool" where
  "isValidApiKey apiKey =
     (length apiKey \<ge> 20 \<and> apiKey \<noteq> [] \<and> list_all (\<lambda>c. c \<in> set key_chars) apiKey)"

text \<open>
  \<open>getKey\<close>. The \<open>setTimeout\<close> that asks for a garbage collection changes nothing the
  model observes.
\<close>

definition getKey :: "env \<Rightarrow> int \<Rightarrow> state \<Rightarrow> string \<Rightarrow> (thrown + string) \<times> state" where
  "getKey E now st modelId =
     (let encryptedData = secrets st (''byok.key.'' @ modelId) in
      if \<not> present encryptedData
      then (Inl (Error (''No API key found for model: '' @ modelId)), st)
      else
        (case decrypt E st (the encryptedData) of
           (Inl e, st1) \<Rightarrow> (Inl e, st1)
         | (Inr key, st1) \<Rightarrow> (Inr key, updateAudit E now modelId True st1)))"

definition storeKey :: "env \<Rightarrow> int \<Rightarrow> state \<Rightarrow> string \<Rightarrow> string \<Rightarrow> (thrown + unit) \<times> state" where
  "storeKey E now st modelId apiKey =
     (if \<not> isValidApiKey apiKey then (Inl (Error ''Invalid API key format''), st)
      else
        (case encrypt E st apiKey of
           (Inl e, st1) \<Rightarrow> (Inl e, st1)
         | (Inr encryptedData, st1) \<Rightarrow>
             (Inr (), initializeRotation E now modelId
                        (storage_store (''byok.key.'' @ modelId) encryptedData st1))))"

definition deleteKey :: "env \<Rightarrow> state \<Rightarrow> string \<Rightarrow> state" where
  "deleteKey E st modelId =
     (let st1 = storage_delete (''byok.key.'' @ modelId) st;
          st2 = storage_delete (''byok.rotation.'' @ modelId) st1
      in st2\<lparr>keyAudits := (keyAudits st2)(hashKeyId E modelId := None)\<rparr>)"

section \<open>Storage service\<close>

text \<open>
  \<open>modelId?: string\<close> is an optional argument; \<open>modelId ? a : b\<close> and \<open>if (modelId)\<close>
  take an absent and an empty one alike.
\<close>

definition legacy_model_key :: "string \<Rightarrow> string \<Rightarrow> string" where
  "legacy_model_key providerName modelId =
     ''copilot-byok-'' @ providerName @ ''-'' @ modelId @ ''-api-key''"

definition legacy_provider_key :: "string \<Rightarrow> string" where
  "legacy_provider_key providerName = ''copilot-byok-'' @ providerName @ ''-api-key''"

definition key_identifier :: "string \<Rightarrow> string option \<Rightarrow> string" where
  "key_identifier providerName modelId =
     (if present modelId then providerName @ ''-'' @ the modelId else providerName)"

text \<open>
  The second half of the \<open>catch\<close> block of \<open>getAPIKey\<close>: the provider-level legacy
  entry.
\<close>

definition migrate_provider_key ::
  "env \<Rightarrow> int \<Rightarrow> state \<Rightarrow> string \<Rightarrow> (thrown + string option) \<times> state" where
  "migrate_provider_key E now st providerName =
     (let providerKey = secrets st (legacy_provider_key providerName) in
      if present providerKey then
        (case storeKey E now st providerName (the providerKey) of
           (Inl e, st1) \<Rightarrow> (Inl e, st1)
         | (Inr u, st1) \<Rightarrow>
             (Inr providerKey, storage_delete (legacy_provider_key providerName) st1))
      else (Inr None, st))"

text \<open>\<open>getAPIKey\<close>: \<open>Inr None\<close> is the promise resolved with \<open>undefined\<close>.\<close>

definition getAPIKey ::
  "env \<Rightarrow> int \<Rightarrow> state \<Rightarrow> string \<Rightarrow> string option \<Rightarrow> (thrown + string option) \<times> state" where
  "getAPIKey E now st providerName modelId =
     (case getKey E now st (key_identifier providerName modelId) of
        (Inr key, st1) \<Rightarrow> (Inr (Some key), st1)
      | (Inl error, st1) \<Rightarrow>
          if present modelId then
            (let modelKey = secrets st1 (legacy_model_key providerName (the modelId)) in
             if present modelKey then
               (case storeKey E now st1 (providerName @ ''-'' @ the modelId) (the modelKey) of
                  (Inl e, st2) \<Rightarrow> (Inl e, st2)
                | (Inr u, st2) \<Rightarrow>
                    (Inr modelKey,
                     storage_delete (legacy_model_key providerName (the modelId)) st2))
             else migrate_provider_key E now st1 providerName)
          else migrate_provider_key E now st1 providerName)"

section \<open>Environments\<close>

text \<open>
  Node's \<open>crypto.createCipheriv\<close> and \<open>crypto.createDecipheriv\<close> validate their first
  argument before anything else: a cipher name that is not a string is rejected with
  the \<open>TypeError\<close> \<open>ERR_INVALID_ARG_TYPE\<close>.
\<close>

definition ERR_INVALID_ARG_TYPE :: lib_error where
  "ERR_INVALID_ARG_TYPE =
     LibError ''TypeError'' (Some ''ERR_INVALID_ARG_TYPE'')
       ''The cipher argument must be of type string. Received undefined''"

definition rejects_missing_algorithm :: "env \<Rightarrow> bool" where
  "rejects_missing_algorithm E =
     (\<forall>key iv. createCipheriv E Undefined key iv = Inl ERR_INVALID_ARG_TYPE
             \<and> createDecipheriv E Undefined key iv = Inl ERR_INVALID_ARG_TYPE)"

text \<open>
  A stand-in environment in the manner of the mocks of the test suite: a cipher that
  adds one to every byte under a constant tag and takes any algorithm name, one byte
  per character for the codecs, the identity for the digest, and a fixed text for a
  rotation record.
\<close>

definition mock_cipher :: "bytes \<Rightarrow> bytes \<times> bytes" where
  "mock_cipher plaintext = (map (\<lambda>b. b + 1) plaintext, replicate 16 0)"

definition mock_decipher :: "bytes \<Rightarrow> bytes \<Rightarrow> lib_error + bytes" where
  "mock_decipher authTag ciphertext =
     (if authTag = replicate 16 0 then Inr (map (\<lambda>b. b - 1) ciphertext)
      else Inl (LibError ''Error'' None ''Unsupported state or unable to authenticate data''))"

definition mock_env :: env where
  "mock_env =
     \<lparr> machineId = ''machine'',
       randomBytes = (\<lambda>calls n. replicate n (of_nat calls)),
       pbkdf2Sync = (\<lambda>password salt. replicate 32 0),
       createCipheriv = (\<lambda>algorithm key iv. Inr mock_cipher),
       createDecipheriv = (\<lambda>algorithm key iv. Inr mock_decipher),
       toBase64 = map (\<lambda>b. char_of (unat b)),
       fromBase64 = map (\<lambda>c. of_nat (of_char c)),
       utf8 = map (\<lambda>c. of_nat (of_char c)),
       fromUtf8 = map (\<lambda>b. char_of (unat b)),
       sha256hex = (\<lambda>s. s),
       JSON_stringify = (\<lambda>r. ''rotation''),
       JSON_parse = (\<lambda>s. Inr (Obj [(''lastRotated'', Str ''2024-01-01T00:00:00.000Z''),
                                  (''rotationReminder'', Bool True),
                                  (''autoRotateAfterDays'', Num 90)])) \<rparr>"

text \<open>The same, with the argument check of Node.\<close>

definition strict_env :: env where
  "strict_env =
     mock_env\<lparr> createCipheriv :=
                 (\<lambda>algorithm key iv.
                    case algorithm of Str a \<Rightarrow> Inr mock_cipher | _ \<Rightarrow> Inl ERR_INVALID_ARG_TYPE),
               createDecipheriv :=
                 (\<lambda>algorithm key iv.
                    case algorithm of Str a \<Rightarrow> Inr mock_decipher | _ \<Rightarrow> Inl ERR_INVALID_ARG_TYPE) \<rparr>"

definition empty_state :: state where
  "empty_state = \<lparr> secrets = Map.empty, keyAudits = Map.empty, randomCalls = 0 \<rparr>"

text \<open>The audit map after one recorded success for \<open>test-model\<close>, and nothing stored.\<close>

definition one_success :: state where
  "one_success = updateAudit mock_env 1000 ''test-model'' True empty_state"

text \<open>
  What \<open>JSON.parse\<close> returns on the text \<open>JSON.stringify\<close> wrote for a rotation record:
  the \<open>Date\<close> has become the string \<open>isoString\<close> that its \<open>toJSON\<close> gave.
\<close>

definition rotation_json :: "string \<Rightarrow> ApiKeyRotation \<Rightarrow> jsval" where
  "rotation_json isoString r =
     Obj ([(''lastRotated'', Str isoString), (''rotationReminder'', Bool (rotationReminder r))] @
          (case autoRotateAfterDays r of
             None \<Rightarrow> []
           | Some d \<Rightarrow> [(''autoRotateAfterDays'', Num d)]))"



text \<open>
  What the envelope needs from the libraries in order to round-trip: the codecs of
  \<open>Buffer\<close> invert each other and encode a non-empty buffer as a non-empty string,
  \<open>randomBytes(n)\<close> returns \<open>n\<close> bytes, and, for the given algorithm argument, a
  cipher and a decipher are created, the tag has 16 bytes and the decipher gives back
  the plaintext of what the cipher produced under the same key and IV.
\<close>

definition codecs_round_trip :: "env \<Rightarrow> bool" where
  "codecs_round_trip E =
     ((\<forall>b. fromBase64 E (toBase64 E b) = b) \<and>
      (\<forall>s. fromUtf8 E (utf8 E s) = s) \<and>
      (\<forall>b. b \<noteq> [] \<longrightarrow> toBase64 E b \<noteq> []) \<and>
      (\<forall>calls n. length (randomBytes E calls n) = n))"

definition cipher_round_trip :: "env \<Rightarrow> jsval \<Rightarrow> bool" where
  "cipher_round_trip E algorithm =
     (\<forall>key iv. \<exists>cipher decipher.
        createCipheriv E algorithm key iv = Inr cipher \<and>
        createDecipheriv E algorithm key iv = Inr decipher \<and>
        (\<forall>plaintext. length (snd (cipher plaintext)) = 16 \<and>
           decipher (snd (cipher plaintext)) (fst (cipher plaintext)) = Inr plaintext))"

text \<open>
  What tamper detection needs from the libraries, for the given algorithm argument.
  \<open>pbkdf2Sync\<close> returns the 32 bytes it is asked for. Under a key of 32 bytes a cipher
  and a decipher are created and the tag has 16 bytes; the decipher rejects the
  ciphertext and the tag of the cipher as soon as one byte of the tag or one byte of
  the ciphertext is changed; and a decipher under another key of 32 bytes, if it is
  created, rejects them. This is authenticated encryption taken as exact: for
  AES-256-GCM the last part holds up to a forgery probability of about \<open>2^-128\<close>.
\<close>

definition authenticating :: "env \<Rightarrow> jsval \<Rightarrow> bool" where
  "authenticating E algorithm =
     ((\<forall>password salt. length (pbkdf2Sync E password salt) = 32) \<and>
      (\<forall>key iv. length key = 32 \<longrightarrow>
         (\<exists>cipher decipher.
            createCipheriv E algorithm key iv = Inr cipher \<and>
            createDecipheriv E algorithm key iv = Inr decipher \<and>
            (\<forall>plaintext.
               length (snd (cipher plaintext)) = 16 \<and>
               (\<forall>i b. i < 16 \<and> b \<noteq> snd (cipher plaintext) ! i \<longrightarrow>
                  (\<exists>e. decipher ((snd (cipher plaintext))[i := b]) (fst (cipher plaintext)) = Inl e)) \<and>
               (\<forall>i b. i < length (fst (cipher plaintext)) \<and> b \<noteq> fst (cipher plaintext) ! i \<longrightarrow>
                  (\<exists>e. decipher (snd (cipher plaintext)) ((fst (cipher plaintext))[i := b]) = Inl e)) \<and>
               (\<forall>key'. length key' = 32 \<and> key' \<noteq> key \<longrightarrow>
                  (case createDecipheriv E algorithm key' iv of
                     Inl e \<Rightarrow> True
                   | Inr other \<Rightarrow>
                       (\<exists>e. other (snd (cipher plaintext)) (fst (cipher plaintext)) = Inl e)))))))"

text \<open>
  A stand-in environment with an authenticating cipher, in which a key depends on the
  machine and on the salt: the ciphertext is the key followed by the plaintext with
  one added to every byte, the tag is the sum of the bytes of the ciphertext followed
  by zeros, and the decipher checks both. It takes any algorithm name.
\<close>

definition checksum :: "bytes \<Rightarrow> bytes" where
  "checksum ciphertext = sum_list ciphertext # replicate 15 0"

definition sealed_cipher :: "bytes \<Rightarrow> bytes \<Rightarrow> bytes \<times> bytes" where
  "sealed_cipher key plaintext =
     (key @ map (\<lambda>b. b + 1) plaintext, checksum (key @ map (\<lambda>b. b + 1) plaintext))"

definition sealed_decipher :: "bytes \<Rightarrow> bytes \<Rightarrow> bytes \<Rightarrow> lib_error + bytes" where
  "sealed_decipher key authTag ciphertext =
     (if authTag = checksum ciphertext \<and> take (length key) ciphertext = key
      then Inr (map (\<lambda>b. b - 1) (drop (length key) ciphertext))
      else Inl (LibError ''Error'' None ''Unsupported state or unable to authenticate data''))"

definition sealed_env :: env where
  "sealed_env =
     mock_env\<lparr> pbkdf2Sync :=
                 (\<lambda>password salt.
                    take 32 (map (\<lambda>c. of_nat (of_char c)) (password @ salt) @ replicate 32 0)),
               createCipheriv := (\<lambda>algorithm key iv. Inr (sealed_cipher key)),
               createDecipheriv := (\<lambda>algorithm key iv. Inr (sealed_decipher key)) \<rparr>"

section \<open>Properties of the error mapper\<close>

text \<open>
  A conversion throws exactly on an object with an own \<open>toString\<close> property, and what
  it throws is a \<open>TypeError\<close>; so for the constructors that convert.
\<close>

lemma ToString_converts:
  "(\<exists>s. ToString large v = Inr s) \<longleftrightarrow> (\<forall>ps. v = Obj ps \<longrightarrow> map_of ps ''toString'' = None)"
  by (cases v) (auto split: option.splits)

lemma ToString_throws_TypeError: "ToString large v = Inl t \<Longrightarrow> \<exists>m. t = TypeError m"
  by (cases v) (auto split: option.splits)

lemma error_message_throws_TypeError: "error_message large v = Inl t \<Longrightarrow> \<exists>m. t = TypeError m"
  by (auto simp: error_message_def split: if_splits sum.splits dest: ToString_throws_TypeError)

lemma error_message_converts:
  "\<exists>s. ToString large v = Inr s \<Longrightarrow> \<exists>m. error_message large v = Inr m"
  by (auto simp: error_message_def)

lemma RateLimitError_throws_TypeError:
  "RateLimitError large provider retryAfter dets = Inl t \<Longrightarrow> \<exists>m. t = TypeError m"
  by (auto simp: RateLimitError_def split: if_splits sum.splits dest: ToString_throws_TypeError)

lemma RateLimitError_converts:
  "\<exists>s. ToString large retryAfter = Inr s \<Longrightarrow>
   \<exists>e. RateLimitError large provider retryAfter dets = Inr e \<and> name e = ''RateLimitError''
        \<and> code e = ''RATE_LIMIT'' \<and> isRetryable e"
  by (auto simp: RateLimitError_def)

lemma ModelNotFoundError_throws_TypeError:
  "ModelNotFoundError large modelId provider = Inl t \<Longrightarrow> \<exists>m. t = TypeError m"
  by (auto simp: ModelNotFoundError_def split: sum.splits dest: ToString_throws_TypeError)

lemma ModelNotFoundError_converts:
  "\<exists>s. ToString large modelId = Inr s \<Longrightarrow> \<exists>e. ModelNotFoundError large modelId provider = Inr e"
  by (auto simp: ModelNotFoundError_def)

lemma InvalidRequestError_throws_TypeError:
  "InvalidRequestError large msg provider dets = Inl t \<Longrightarrow> \<exists>m. t = TypeError m"
  by (auto simp: InvalidRequestError_def split: sum.splits dest: error_message_throws_TypeError)

lemma InvalidRequestError_converts:
  "\<exists>s. ToString large msg = Inr s \<Longrightarrow> \<exists>e. InvalidRequestError large msg provider dets = Inr e"
  by (auto simp: InvalidRequestError_def dest!: error_message_converts)

lemma new_BYOKError_throws_TypeError:
  "new_BYOKError large msg c retryable action dets = Inl t \<Longrightarrow> \<exists>m. t = TypeError m"
  by (auto simp: new_BYOKError_def split: sum.splits dest: error_message_throws_TypeError)

lemma new_BYOKError_converts:
  "\<exists>s. ToString large msg = Inr s \<Longrightarrow>
   \<exists>e. new_BYOKError large msg c retryable action dets = Inr e \<and> name e = ''BYOKError''
        \<and> code e = c \<and> isRetryable e = retryable"
  by (auto simp: new_BYOKError_def dest!: error_message_converts)

text \<open>The mapper on an input that is neither \<open>null\<close> nor \<open>undefined\<close>, case by case.\<close>

lemma mapAnthropicError_cases:
  assumes "\<not> nullish error"
  shows "mapAnthropicError large error =
     (if error_status error = Num 401
        then Inr (AuthenticationError ''Anthropic'' (Obj [(''status'', error_status error)]))
      else if error_status error = Num 429
        then RateLimitError large ''Anthropic'' (retry_after error) Undefined
      else if error_status error = Num 404
        then ModelNotFoundError large (model_or_unknown error) ''Anthropic''
      else if error_status error = Num 400
        then InvalidRequestError large (anthropic_message error) ''Anthropic''
               (Obj [(''status'', error_status error)])
      else if own_prop error ''code'' = Str ''ENOTFOUND''
              \<or> own_prop error ''code'' = Str ''ECONNREFUSED''
        then Inr (NetworkError ''Anthropic'' error)
      else new_BYOKError large (anthropic_message error) ''UNKNOWN_ERROR'' False None
             (Obj [(''status'', error_status error)]))"
  using assms by (simp add: mapAnthropicError_def get_prop_def Let_def)

lemma mapAnthropicError_throws_TypeError:
  "mapAnthropicError large error = Inl t \<Longrightarrow> \<exists>m. t = TypeError m"
proof (cases "nullish error")
  case True
  assume "mapAnthropicError large error = Inl t"
  with True show ?thesis by (auto simp: mapAnthropicError_def get_prop_def)
next
  case False
  assume "mapAnthropicError large error = Inl t"
  then show ?thesis
    unfolding mapAnthropicError_cases [OF False]
    by (auto split: if_splits
          dest: RateLimitError_throws_TypeError ModelNotFoundError_throws_TypeError
                InvalidRequestError_throws_TypeError new_BYOKError_throws_TypeError)
qed

text \<open>
  Claim C6 says that the mapper is total on every input. It is not. On \<open>null\<close> (and
  on \<open>undefined\<close>) the first property read throws a \<open>TypeError\<close>; on
  \<open>{ message: { toString: 1 } }\<close> the \<open>Error\<close> constructor cannot convert the
  message and throws a \<open>TypeError\<close>. Neither outcome is a classified error.
\<close>

theorem mapAnthropicError_null_counterexample:
  "mapAnthropicError decimal_text Null = Inl (TypeError ''Cannot read properties of null'') \<and>
   mapAnthropicError decimal_text (Obj [(''message'', Obj [(''toString'', Num 1)])])
     = Inl (TypeError ''Cannot convert object to primitive value'')"
proof -
  let ?odd = "Obj [(''message'', Obj [(''toString'', Num 1)])]"
  have n: "\<not> nullish ?odd" by (simp add: nullish_def)
  have "mapAnthropicError decimal_text ?odd
          = new_BYOKError decimal_text (anthropic_message ?odd) ''UNKNOWN_ERROR'' False None
              (Obj [(''status'', error_status ?odd)])"
    by (simp add: mapAnthropicError_cases [OF n] error_status_def js_or_def opt_prop_def nullish_def)
  moreover have "anthropic_message ?odd = Obj [(''toString'', Num 1)]"
    by (simp add: anthropic_message_def js_or_def opt_prop_def nullish_def)
  ultimately have "mapAnthropicError decimal_text ?odd
          = Inl (TypeError ''Cannot convert object to primitive value'')"
    by (simp add: new_BYOKError_def error_message_def)
  moreover have "mapAnthropicError decimal_text Null
          = Inl (TypeError ''Cannot read properties of null'')"
    by (simp add: mapAnthropicError_def get_prop_def nullish_def nullish_text_def)
  ultimately show ?thesis by simp
qed

lemma mapAnthropicError_undefined:
  "mapAnthropicError large Undefined = Inl (TypeError ''Cannot read properties of undefined'')"
  by (simp add: mapAnthropicError_def get_prop_def nullish_def nullish_text_def)

text \<open>The mappers of the other two providers have no guard either.\<close>

lemma other_mappers_throw_on_null:
  "mapOpenAIError large Null = Inl (TypeError ''Cannot read properties of null'')"
  "mapGeminiError large Null = Inl (TypeError ''Cannot read properties of null'')"
  by (simp_all add: mapOpenAIError_def mapGeminiError_def get_prop_def nullish_def
        nullish_text_def)

text \<open>A constructor returns exactly when the value it converts can be converted.\<close>

lemma ToString_result:
  "(\<exists>s. ToString large v = Inr s) \<or>
   (\<exists>t. ToString large v = Inl t \<and> truthy v \<and> v \<noteq> Undefined)"
  by (cases v) (auto split: option.splits)

lemma RateLimitError_returns:
  "(\<exists>e. RateLimitError large provider retryAfter dets = Inr e) \<longleftrightarrow>
   (\<exists>s. ToString large retryAfter = Inr s)"
  using ToString_result [of large retryAfter]
  by (auto simp: RateLimitError_def)

lemma ModelNotFoundError_returns:
  "(\<exists>e. ModelNotFoundError large modelId provider = Inr e) \<longleftrightarrow>
   (\<exists>s. ToString large modelId = Inr s)"
  by (auto simp: ModelNotFoundError_def split: sum.splits)

lemma error_message_returns:
  "(\<exists>m. error_message large v = Inr m) \<longleftrightarrow> (\<exists>s. ToString large v = Inr s)"
  using ToString_result [of large v]
  by (auto simp: error_message_def split: sum.splits)

lemma InvalidRequestError_returns:
  "(\<exists>e. InvalidRequestError large msg provider dets = Inr e) \<longleftrightarrow>
   (\<exists>s. ToString large msg = Inr s)"
  using error_message_returns [of large msg]
  by (auto simp: InvalidRequestError_def split: sum.splits)

lemma new_BYOKError_returns:
  "(\<exists>e. new_BYOKError large msg c retryable action dets = Inr e) \<longleftrightarrow>
   (\<exists>s. ToString large msg = Inr s)"
  using error_message_returns [of large msg]
  by (auto simp: new_BYOKError_def split: sum.splits)

text \<open>
  Claim C6, amended, for an input that is \<open>undefined\<close> or a value that JSON can
  describe. On an input that is neither \<open>null\<close> nor \<open>undefined\<close> the mapper returns a
  classified error exactly when the one value that it converts to a string can be
  converted: the retry-after header for status 429, \<open>error.model || 'unknown'\<close> for
  status 404, the message for status 400 and for the fall-through, nothing for status
  401 and for the two network codes. Otherwise it throws, and what it throws is a
  \<open>TypeError\<close>. A status of 401 (read from \<open>error.status\<close> or \<open>error.response.status\<close>)
  gives \<open>AuthenticationError\<close> with code \<open>AUTH_FAILED\<close>, not retryable; a status of 429
  whose retry-after header converts gives \<open>RateLimitError\<close> with code \<open>RATE_LIMIT\<close>,
  retryable; an input whose status is none of 401, 429, 404, 400, whose code is
  neither \<open>ENOTFOUND\<close> nor \<open>ECONNREFUSED\<close> and whose message converts gives the base
  \<open>BYOKError\<close> with code \<open>UNKNOWN_ERROR\<close>, not retryable.
\<close>

theorem mapAnthropicError_classifies:
  "\<not> nullish error \<Longrightarrow>
     ((\<exists>e. mapAnthropicError large error = Inr e) \<longleftrightarrow>
        (error_status error = Num 429 \<longrightarrow> (\<exists>s. ToString large (retry_after error) = Inr s)) \<and>
        (error_status error = Num 404 \<longrightarrow> (\<exists>s. ToString large (model_or_unknown error) = Inr s)) \<and>
        (error_status error = Num 400 \<or>
         error_status error \<notin> {Num 401, Num 429, Num 404, Num 400} \<and>
         own_prop error ''code'' \<notin> {Str ''ENOTFOUND'', Str ''ECONNREFUSED''} \<longrightarrow>
           (\<exists>s. ToString large (anthropic_message error) = Inr s))) \<and>
     (\<forall>t. mapAnthropicError large error = Inl t \<longrightarrow> (\<exists>m. t = TypeError m)) \<and>
     (error_status error = Num 401 \<longrightarrow>
        (\<exists>e. mapAnthropicError large error = Inr e \<and> name e = ''AuthenticationError''
              \<and> code e = ''AUTH_FAILED'' \<and> \<not> isRetryable e)) \<and>
     (error_status error = Num 429 \<and> (\<exists>s. ToString large (retry_after error) = Inr s) \<longrightarrow>
        (\<exists>e. mapAnthropicError large error = Inr e \<and> name e = ''RateLimitError''
              \<and> code e = ''RATE_LIMIT'' \<and> isRetryable e)) \<and>
     (error_status error \<notin> {Num 401, Num 429, Num 404, Num 400} \<and>
      own_prop error ''code'' \<notin> {Str ''ENOTFOUND'', Str ''ECONNREFUSED''} \<and>
      (\<exists>s. ToString large (anthropic_message error) = Inr s) \<longrightarrow>
        (\<exists>e. mapAnthropicError large error = Inr e \<and> name e = ''BYOKError''
              \<and> code e = ''UNKNOWN_ERROR'' \<and> \<not> isRetryable e))"
proof -
  assume n: "\<not> nullish error"
  note eq = mapAnthropicError_cases [OF n, of large]
  have returns: "(\<exists>e. mapAnthropicError large error = Inr e) \<longleftrightarrow>
        (error_status error = Num 429 \<longrightarrow> (\<exists>s. ToString large (retry_after error) = Inr s)) \<and>
        (error_status error = Num 404 \<longrightarrow> (\<exists>s. ToString large (model_or_unknown error) = Inr s)) \<and>
        (error_status error = Num 400 \<or>
         error_status error \<notin> {Num 401, Num 429, Num 404, Num 400} \<and>
         own_prop error ''code'' \<notin> {Str ''ENOTFOUND'', Str ''ECONNREFUSED''} \<longrightarrow>
           (\<exists>s. ToString large (anthropic_message error) = Inr s))"
    unfolding eq
    by (simp add: RateLimitError_returns ModelNotFoundError_returns InvalidRequestError_returns
          new_BYOKError_returns)
  have auth: "\<exists>e. mapAnthropicError large error = Inr e \<and> name e = ''AuthenticationError''
            \<and> code e = ''AUTH_FAILED'' \<and> \<not> isRetryable e"
    if "error_status error = Num 401"
    using that unfolding eq by (simp add: AuthenticationError_def)
  have rate: "\<exists>e. mapAnthropicError large error = Inr e \<and> name e = ''RateLimitError''
            \<and> code e = ''RATE_LIMIT'' \<and> isRetryable e"
    if "error_status error = Num 429" and r: "\<exists>s. ToString large (retry_after error) = Inr s"
    using that(1) RateLimitError_converts [OF r, of "''Anthropic''" Undefined]
    unfolding eq by simp
  have unknown: "\<exists>e. mapAnthropicError large error = Inr e \<and> name e = ''BYOKError''
            \<and> code e = ''UNKNOWN_ERROR'' \<and> \<not> isRetryable e"
    if "error_status error \<notin> {Num 401, Num 429, Num 404, Num 400}"
    and "own_prop error ''code'' \<notin> {Str ''ENOTFOUND'', Str ''ECONNREFUSED''}"
    and g: "\<exists>s. ToString large (anthropic_message error) = Inr s"
    using that(1,2) new_BYOKError_converts [OF g, of "''UNKNOWN_ERROR''" False None
        "Obj [(''status'', error_status error)]"]
    unfolding eq by simp
  from auth rate unknown mapAnthropicError_throws_TypeError [of large error]
  have rest: "(\<forall>t. mapAnthropicError large error = Inl t \<longrightarrow> (\<exists>m. t = TypeError m)) \<and>
     (error_status error = Num 401 \<longrightarrow>
        (\<exists>e. mapAnthropicError large error = Inr e \<and> name e = ''AuthenticationError''
              \<and> code e = ''AUTH_FAILED'' \<and> \<not> isRetryable e)) \<and>
     (error_status error = Num 429 \<and> (\<exists>s. ToString large (retry_after error) = Inr s) \<longrightarrow>
        (\<exists>e. mapAnthropicError large error = Inr e \<and> name e = ''RateLimitError''
              \<and> code e = ''RATE_LIMIT'' \<and> isRetryable e)) \<and>
     (error_status error \<notin> {Num 401, Num 429, Num 404, Num 400} \<and>
      own_prop error ''code'' \<notin> {Str ''ENOTFOUND'', Str ''ECONNREFUSED''} \<and>
      (\<exists>s. ToString large (anthropic_message error) = Inr s) \<longrightarrow>
        (\<exists>e. mapAnthropicError large error = Inr e \<and> name e = ''BYOKError''
              \<and> code e = ''UNKNOWN_ERROR'' \<and> \<not> isRetryable e))"
    by blast
  from returns rest show ?thesis by (rule conjI)
qed

text \<open>
  The amended claim C6 at five inputs: \<open>{ status: 401 }\<close>,
  \<open>{ response: { status: 429, headers: { 'retry-after': 30 } } }\<close>, the string
  \<open>'boom'\<close>, \<open>{ status: 404 }\<close>, and \<open>{ status: 404, model: { toString: null } }\<close>, on
  which the mapper does not return.
\<close>

theorem mapAnthropicError_classifies_witness:
  "(\<exists>e. mapAnthropicError decimal_text (Obj [(''status'', Num 401)]) = Inr e
        \<and> code e = ''AUTH_FAILED'' \<and> \<not> isRetryable e) \<and>
   (\<exists>e. mapAnthropicError decimal_text
          (Obj [(''response'', Obj [(''status'', Num 429),
                                    (''headers'', Obj [(''retry-after'', Num 30)])])]) = Inr e
        \<and> code e = ''RATE_LIMIT'' \<and> isRetryable e) \<and>
   (\<exists>e. mapAnthropicError decimal_text (Str ''boom'') = Inr e
        \<and> code e = ''UNKNOWN_ERROR'' \<and> \<not> isRetryable e) \<and>
   (\<exists>e. mapAnthropicError decimal_text (Obj [(''status'', Num 404)]) = Inr e) \<and>
   (\<forall>e. mapAnthropicError decimal_text
          (Obj [(''status'', Num 404), (''model'', Obj [(''toString'', Null)])]) \<noteq> Inr e)"
proof -
  let ?limited = "Obj [(''response'', Obj [(''status'', Num 429),
                                           (''headers'', Obj [(''retry-after'', Num 30)])])]"
  let ?odd = "Obj [(''status'', Num 404), (''model'', Obj [(''toString'', Null)])]"
  have a: "\<not> nullish (Obj [(''status'', Num 401)])"
    "error_status (Obj [(''status'', Num 401)]) = Num 401"
    by (simp_all add: nullish_def error_status_def js_or_def)
  have b: "\<not> nullish ?limited" "error_status ?limited = Num 429"
    "\<exists>s. ToString decimal_text (retry_after ?limited) = Inr s"
    by (simp_all add: nullish_def error_status_def js_or_def opt_prop_def retry_after_def)
  have c: "\<not> nullish (Str ''boom'')"
    "error_status (Str ''boom'') \<notin> {Num 401, Num 429, Num 404, Num 400}"
    "own_prop (Str ''boom'') ''code'' \<notin> {Str ''ENOTFOUND'', Str ''ECONNREFUSED''}"
    "\<exists>s. ToString decimal_text (anthropic_message (Str ''boom'')) = Inr s"
    by (simp_all add: nullish_def error_status_def js_or_def opt_prop_def anthropic_message_def)
  have d: "\<not> nullish (Obj [(''status'', Num 404)])"
    "error_status (Obj [(''status'', Num 404)]) = Num 404"
    "\<exists>s. ToString decimal_text (model_or_unknown (Obj [(''status'', Num 404)])) = Inr s"
    by (simp_all add: nullish_def error_status_def js_or_def model_or_unknown_def)
  have e: "\<not> nullish ?odd" "error_status ?odd = Num 404"
    "\<not> (\<exists>s. ToString decimal_text (model_or_unknown ?odd) = Inr s)"
    by (simp_all add: nullish_def error_status_def js_or_def model_or_unknown_def)
  have A: "\<exists>e. mapAnthropicError decimal_text (Obj [(''status'', Num 401)]) = Inr e
        \<and> code e = ''AUTH_FAILED'' \<and> \<not> isRetryable e"
    using mapAnthropicError_classifies [OF a(1), of decimal_text] a(2) by blast
  have B: "\<exists>e. mapAnthropicError decimal_text ?limited = Inr e
        \<and> code e = ''RATE_LIMIT'' \<and> isRetryable e"
    using mapAnthropicError_classifies [OF b(1), of decimal_text] b(2,3) by blast
  have C: "\<exists>e. mapAnthropicError decimal_text (Str ''boom'') = Inr e
        \<and> code e = ''UNKNOWN_ERROR'' \<and> \<not> isRetryable e"
    using mapAnthropicError_classifies [OF c(1), of decimal_text] c(2,3,4) by blast
  have D: "\<exists>e. mapAnthropicError decimal_text (Obj [(''status'', Num 404)]) = Inr e"
    using mapAnthropicError_classifies [OF d(1), of decimal_text, THEN conjunct1] d(2,3) by simp
  have E: "\<forall>x. mapAnthropicError decimal_text ?odd \<noteq> Inr x"
    using mapAnthropicError_classifies [OF e(1), of decimal_text, THEN conjunct1] e(2,3) by simp
  from A B C D E show ?thesis by blast
qed

text \<open>The text of the rate-limit error for a retry-after header of 30 seconds.\<close>

lemma rate_limit_text:
  "mapAnthropicError large
     (Obj [(''status'', Num 429), (''response'', Obj [(''headers'', Obj [(''retry-after'', Num 30)])])])
   = Inr \<lparr> name = ''RateLimitError'', message = Some ''Rate limit exceeded for Anthropic'',
           code = ''RATE_LIMIT'', isRetryable = True,
           userAction = Some ''Please wait 30 seconds'',
           details = Obj [(''retryAfter'', Num 30)] \<rparr>"
  by (simp add: mapAnthropicError_def get_prop_def nullish_def error_status_def js_or_def
        opt_prop_def retry_after_def anthropic_message_def RateLimitError_def with_prop_def
        number_text_def decimal_text_def string_of_nat.simps Let_def)

section \<open>Properties of the retry strategy\<close>

lemma retry_loop_success:
  "int a \<le> maxRetries opts \<Longrightarrow> fn st = (Inr v, st') \<Longrightarrow>
   retry_loop opts fn rand a lastError st ws = (Inr v, st', ws)"
  by (subst retry_loop.simps) simp

lemma retry_loop_stop:
  "int a \<le> maxRetries opts \<Longrightarrow> fn st = (Inl error, st') \<Longrightarrow>
   retry_decision opts error = Inr retry \<Longrightarrow> int a = maxRetries opts \<or> \<not> retry \<Longrightarrow>
   retry_loop opts fn rand a lastError st ws = (Inl error, st', ws)"
  by (subst retry_loop.simps) auto

lemma retry_loop_retry:
  "int a < maxRetries opts \<Longrightarrow> fn st = (Inl error, st1) \<Longrightarrow>
   retry_decision opts error = Inr True \<Longrightarrow>
   retry_callback opts a error (retry_delay opts rand a) st1 = (Inr (), st2) \<Longrightarrow>
   retry_loop opts fn rand a lastError st ws =
   retry_loop opts fn rand (Suc a) error st2 (ws @ [retry_delay opts rand a])"
  by (subst retry_loop.simps) (simp add: Let_def)

text \<open>A loop with no attempt left rejects with \<open>lastError\<close>.\<close>

lemma retry_loop_exhausted:
  "maxRetries opts < int a \<Longrightarrow>
   retry_loop opts fn rand a lastError st ws = (Inl lastError, st, ws)"
  by (subst retry_loop.simps) simp

lemma retried_loop:
  "retried opts fn rand c c' \<Longrightarrow>
   (case c of (a, le, st, ws) \<Rightarrow> retry_loop opts fn rand a le st ws) =
   (case c' of (b, le', st', ws') \<Rightarrow> retry_loop opts fn rand b le' st' ws')"
proof (induction rule: retried.induct)
  case (retried_none c)
  show ?case ..
next
  case (retried_step a st error st1 st2 ws c lastError)
  then show ?case by (simp add: retry_loop_retry)
qed

lemma retried_length:
  "retried opts fn rand c c' \<Longrightarrow>
   fst c \<le> fst c' \<and>
   length (snd (snd (snd c'))) = length (snd (snd (snd c))) + (fst c' - fst c)"
  by (induction rule: retried.induct) auto

lemma flaky_run:
  "executeWithRetry flaky flaky_options rand 0 =
     (Inr ''success'', 3,
      [retry_delay (merge_options DEFAULT_OPTIONS flaky_options) rand 0,
       retry_delay (merge_options DEFAULT_OPTIONS flaky_options) rand 1])"
proof -
  let ?opts = "merge_options DEFAULT_OPTIONS flaky_options :: nat RetryOptions"
  let ?failure = "Error ''Temporary failure''"
  have m: "maxRetries ?opts = 3" and d: "\<And>e. retry_decision ?opts e = Inr True"
    and c: "\<And>a e dl s. retry_callback ?opts a e dl s = (Inr (), s)"
    by (simp_all add: merge_options_def DEFAULT_OPTIONS_def flaky_options_def
          retry_decision_def retry_callback_def)
  have f0: "flaky 0 = (Inl ?failure, 1)"
    and f1: "flaky (Suc 0) = (Inl ?failure, 2)"
    and f2: "flaky 2 = (Inr ''success'', 3)"
    by (simp_all add: flaky_def)
  have "retry_loop ?opts flaky rand 0 (Raw Undefined) 0 [] =
        retry_loop ?opts flaky rand (Suc 0) ?failure (Suc 0) ([] @ [retry_delay ?opts rand 0])"
    by (subst retry_loop.simps) (simp add: m d c f0 Let_def)
  also have "\<dots> = retry_loop ?opts flaky rand (Suc (Suc 0)) ?failure 2
                     (([] @ [retry_delay ?opts rand 0]) @ [retry_delay ?opts rand (Suc 0)])"
    by (subst retry_loop.simps) (simp add: m d c f1 Let_def)
  also have "\<dots> = (Inr ''success'', 3,
                     ([] @ [retry_delay ?opts rand 0]) @ [retry_delay ?opts rand (Suc 0)])"
    by (subst retry_loop.simps) (simp add: m f2)
  finally show ?thesis by (simp add: executeWithRetry_def)
qed

text \<open>
  Claim C3. Let the first \<open>k\<close> attempts fail and be retried, leaving the operation in
  state \<open>st_k\<close> after \<open>k\<close> delays, with \<open>k\<close> within \<open>maxRetries\<close>. If the next attempt
  succeeds, \<open>executeWithRetry\<close> resolves with its value, in the state that attempt
  left and with no further delay. If it fails, the predicate returns, and either the
  loop counter has reached \<open>maxRetries\<close> or the predicate rejects the error, then
  \<open>executeWithRetry\<close> rejects with that error, again in the state the attempt left and
  with no further delay. In particular the operation that fails twice and then
  succeeds, run with \<open>maxRetries = 3\<close> and a predicate that is always true, resolves
  with \<open>success\<close> after 3 calls and 2 delays.
\<close>

theorem executeWithRetry_outcome:
  "retried (merge_options DEFAULT_OPTIONS options) fn rand
      (0, Raw Undefined, st, []) (k, lastError, st_k, waits) \<Longrightarrow>
   int k \<le> maxRetries (merge_options DEFAULT_OPTIONS options) \<Longrightarrow>
     length waits = k \<and>
     (fn st_k = (Inr v, st') \<longrightarrow>
        executeWithRetry fn options rand st = (Inr v, st', waits)) \<and>
     (fn st_k = (Inl error, st') \<and>
      retry_decision (merge_options DEFAULT_OPTIONS options) error = Inr retry \<and>
      (int k = maxRetries (merge_options DEFAULT_OPTIONS options) \<or> \<not> retry) \<longrightarrow>
        executeWithRetry fn options rand st = (Inl error, st', waits)) \<and>
     executeWithRetry flaky flaky_options rand' 0 =
       (Inr ''success'', 3,
        [retry_delay (merge_options DEFAULT_OPTIONS flaky_options) rand' 0,
         retry_delay (merge_options DEFAULT_OPTIONS flaky_options) rand' 1])"
proof -
  let ?opts = "merge_options DEFAULT_OPTIONS options"
  assume run: "retried ?opts fn rand (0, Raw Undefined, st, []) (k, lastError, st_k, waits)"
    and k: "int k \<le> maxRetries ?opts"
  from retried_loop [OF run]
  have eq: "executeWithRetry fn options rand st = retry_loop ?opts fn rand k lastError st_k waits"
    by (simp add: executeWithRetry_def)
  from retried_length [OF run] have len: "length waits = k" by simp
  show ?thesis
    using len eq k flaky_run [of rand']
    by (auto simp: retry_loop_success retry_loop_stop)
qed

text \<open>
  Claim C3 at two runs: the operation of the test, which succeeds at its third call,
  and an operation that always fails under a predicate that rejects every error.
\<close>

theorem executeWithRetry_outcome_witness:
  "executeWithRetry flaky flaky_options (\<lambda>n. 0) 0 =
     (Inr ''success'', 3,
      [retry_delay (merge_options DEFAULT_OPTIONS flaky_options) (\<lambda>n. 0) 0,
       retry_delay (merge_options DEFAULT_OPTIONS flaky_options) (\<lambda>n. 0) 1]) \<and>
   executeWithRetry (\<lambda>n. (Inl (Error ''down''), Suc n))
       (flaky_options\<lparr>shouldRetry_given := Some (Some (\<lambda>e. Inr False))\<rparr>) (\<lambda>n. 0) 0 =
     (Inl (Error ''down'') :: thrown + string, 1, [])"
proof -
  let ?opts = "merge_options DEFAULT_OPTIONS flaky_options :: nat RetryOptions"
  let ?rand = "\<lambda>n::nat. 0::real"
  let ?failure = "Error ''Temporary failure''"
  let ?d0 = "retry_delay ?opts ?rand 0" and ?d1 = "retry_delay ?opts ?rand (Suc 0)"
  have m: "maxRetries ?opts = 3" and d: "\<And>e. retry_decision ?opts e = Inr True"
    and c: "\<And>a e dl s. retry_callback ?opts a e dl s = (Inr (), s)"
    by (simp_all add: merge_options_def DEFAULT_OPTIONS_def flaky_options_def
          retry_decision_def retry_callback_def)
  have run: "retried ?opts flaky ?rand (0, Raw Undefined, 0, []) (2, ?failure, 2, [?d0, ?d1])"
  proof (rule retried_step [where error = ?failure and ?st1.0 = 1 and ?st2.0 = 1])
    show "retried ?opts flaky ?rand (Suc 0, ?failure, 1, [] @ [?d0]) (2, ?failure, 2, [?d0, ?d1])"
    proof (rule retried_step [where error = ?failure and ?st1.0 = 2 and ?st2.0 = 2])
      show "retried ?opts flaky ?rand (Suc (Suc 0), ?failure, 2, ([] @ [?d0]) @ [?d1])
              (2, ?failure, 2, [?d0, ?d1])"
        using retried_none [of ?opts flaky ?rand "(2, ?failure, 2, [?d0, ?d1])"]
        by (simp add: numeral_2_eq_2)
    qed (simp_all add: m d c flaky_def)
  qed (simp_all add: m d c flaky_def)
  have k: "int 2 \<le> maxRetries ?opts" by (simp add: m)
  have ok: "flaky 2 = (Inr ''success'', 3)" by (simp add: flaky_def)
  let ?strict = "flaky_options\<lparr>shouldRetry_given := Some (Some (\<lambda>e. Inr False))\<rparr>"
  let ?sopts = "merge_options DEFAULT_OPTIONS ?strict :: nat RetryOptions"
  let ?down = "\<lambda>n::nat. (Inl (Error ''down'') :: thrown + string, Suc n)"
  have k0: "int 0 \<le> maxRetries ?sopts"
    and d0: "retry_decision ?sopts (Error ''down'') = Inr False"
    by (simp_all add: merge_options_def DEFAULT_OPTIONS_def flaky_options_def retry_decision_def)
  have A: "executeWithRetry flaky flaky_options ?rand 0 = (Inr ''success'', 3, [?d0, ?d1])"
    using executeWithRetry_outcome [where v = "''success''" and st' = 3, OF run k] ok by blast
  have B: "executeWithRetry ?down ?strict ?rand 0 = (Inl (Error ''down''), 1, [])"
    using executeWithRetry_outcome [where fn = ?down and st' = 1 and error = "Error ''down''"
          and retry = False and st = 0 and rand = ?rand, OF retried_none k0] d0 by simp
  from A B show ?thesis by simp
qed

section \<open>Properties of the key manager\<close>

subsection \<open>What an operation leaves untouched\<close>

lemma getDerivedKey_keyAudits:
  "getDerivedKey E st = (key, st1) \<Longrightarrow> keyAudits st1 = keyAudits st"
  by (auto simp: getDerivedKey_def Let_def storage_store_def split: if_splits)

lemma getDerivedKey_secrets:
  "getDerivedKey E st = (key, st1) \<Longrightarrow> k \<noteq> ''byok.encryption.salt'' \<Longrightarrow>
   secrets st1 k = secrets st k"
  by (auto simp: getDerivedKey_def Let_def storage_store_def split: if_splits)

lemma encrypt_secrets:
  "encrypt E st s = (r, st1) \<Longrightarrow> k \<noteq> ''byok.encryption.salt'' \<Longrightarrow>
   secrets st1 k = secrets st k"
  by (auto simp: encrypt_def Let_def split: prod.splits sum.splits dest: getDerivedKey_secrets)

lemma encrypt_not_Error: "fst (encrypt E st s) \<noteq> Inl (Error m)"
  by (simp add: encrypt_def Let_def split: prod.splits sum.splits)

lemma decrypt_keyAudits: "decrypt E st s = (r, st1) \<Longrightarrow> keyAudits st1 = keyAudits st"
  by (auto simp: decrypt_def Let_def split: prod.splits sum.splits
        dest: getDerivedKey_keyAudits)

lemma decrypt_secrets:
  "decrypt E st s = (r, st1) \<Longrightarrow> k \<noteq> ''byok.encryption.salt'' \<Longrightarrow>
   secrets st1 k = secrets st k"
  by (auto simp: decrypt_def Let_def split: prod.splits sum.splits dest: getDerivedKey_secrets)

lemma getKey_secrets:
  "getKey E now st modelId = (r, st1) \<Longrightarrow> k \<noteq> ''byok.encryption.salt'' \<Longrightarrow>
   secrets st1 k = secrets st k"
  by (auto simp: getKey_def Let_def updateAudit_def
        split: prod.splits sum.splits if_splits option.splits dest: decrypt_secrets)

lemma storeKey_failure_secrets:
  "storeKey E now st modelId apiKey = (Inl e, st1) \<Longrightarrow> k \<noteq> ''byok.encryption.salt'' \<Longrightarrow>
   secrets st1 k = secrets st k"
  by (auto simp: storeKey_def split: prod.splits sum.splits if_splits dest: encrypt_secrets)

lemma storeKey_secrets:
  "storeKey E now st modelId apiKey = (Inr u, st1) \<Longrightarrow>
   k \<noteq> ''byok.encryption.salt'' \<Longrightarrow> k \<noteq> ''byok.key.'' @ modelId \<Longrightarrow>
   k \<noteq> ''byok.rotation.'' @ modelId \<Longrightarrow> secrets st1 k = secrets st k"
  by (auto simp: storeKey_def initializeRotation_def storage_store_def Let_def
        split: if_splits prod.splits sum.splits dest: encrypt_secrets [where k = k])

subsection \<open>Envelope encryption\<close>

lemma encrypt_without_algorithm:
  "rejects_missing_algorithm E \<Longrightarrow> \<exists>st1. encrypt E st s = (Inl (Lib ERR_INVALID_ARG_TYPE), st1)"
  by (simp add: encrypt_def rejects_missing_algorithm_def this_ENCRYPTION_ALGORITHM_def
        Let_def split: prod.splits)

text \<open>
  Claim C1 says that \<open>decrypt(encrypt(s))\<close> returns \<open>s\<close>. In an environment that
  checks the algorithm argument as Node does, \<open>encrypt\<close> rejects for every secret
  \<open>s\<close> and from every state, with the \<open>TypeError\<close> of \<open>createCipheriv\<close>: the algorithm
  name it passes is \<open>undefined\<close>. No envelope is ever produced.
\<close>

theorem encrypt_rejected:
  "rejects_missing_algorithm E \<Longrightarrow> fst (encrypt E st s) = Inl (Lib ERR_INVALID_ARG_TYPE)"
  by (simp add: encrypt_def rejects_missing_algorithm_def this_ENCRYPTION_ALGORITHM_def
        Let_def split: prod.splits)

text \<open>Claim C1, the rejection at the secret \<open>test-api-key-12345-abcdef\<close> on a fresh manager.\<close>

theorem encrypt_rejected_witness:
  "rejects_missing_algorithm strict_env \<and>
   fst (encrypt strict_env empty_state ''test-api-key-12345-abcdef'') = Inl (Lib ERR_INVALID_ARG_TYPE)"
proof -
  have r: "rejects_missing_algorithm strict_env"
    by (simp add: rejects_missing_algorithm_def strict_env_def)
  from encrypt_rejected [OF r] r show ?thesis by simp
qed

text \<open>\<open>decrypt\<close> fails in the same way, on every blob.\<close>

lemma decrypt_rejected:
  "rejects_missing_algorithm E \<Longrightarrow> fst (decrypt E st s) = Inl (Lib ERR_INVALID_ARG_TYPE)"
  by (simp add: decrypt_def rejects_missing_algorithm_def this_ENCRYPTION_ALGORITHM_def
        Let_def split: prod.splits)

text \<open>\<open>decrypt\<close> hands on the error of the decipher: no fallback returns a plaintext.\<close>

lemma decrypt_propagates_failure:
  "getDerivedKey E st = (key, st1) \<Longrightarrow>
   createDecipheriv E this_ENCRYPTION_ALGORITHM key (take 16 (fromBase64 E blob)) = Inr decipher \<Longrightarrow>
   decipher (take 16 (drop 16 (fromBase64 E blob))) (drop 32 (fromBase64 E blob)) = Inl e \<Longrightarrow>
   decrypt E st blob = (Inl (Lib e), st1)"
  by (simp add: decrypt_def Let_def)

text \<open>
  The rest of the envelope code is sound: were a cipher created for the algorithm
  argument that the code passes, the envelope would round-trip.
\<close>

lemma getDerivedKey_salt:
  assumes "codecs_round_trip E" and "getDerivedKey E st = (key, st1)"
  shows "present (secrets st1 ''byok.encryption.salt'') \<and>
         key = pbkdf2Sync E (machineId E) (the (secrets st1 ''byok.encryption.salt''))"
proof (cases "present (secrets st ''byok.encryption.salt'')")
  case True
  with assms(2) show ?thesis by (auto simp: getDerivedKey_def Let_def)
next
  case False
  from assms(1) have "length (randomBytes E (randomCalls st) 32) = 32"
    by (simp add: codecs_round_trip_def)
  then have "randomBytes E (randomCalls st) 32 \<noteq> []" by auto
  with assms(1) have "toBase64 E (randomBytes E (randomCalls st) 32) \<noteq> []"
    by (simp add: codecs_round_trip_def)
  with False assms(2) show ?thesis
    by (auto simp: getDerivedKey_def Let_def storage_store_def present_def)
qed

lemma getDerivedKey_present:
  "present (secrets st ''byok.encryption.salt'') \<Longrightarrow>
   getDerivedKey E st = (pbkdf2Sync E (machineId E) (the (secrets st ''byok.encryption.salt'')), st)"
  by (simp add: getDerivedKey_def Let_def)

lemma round_trip_when_cipher_created:
  assumes codecs: "codecs_round_trip E"
    and cipher: "cipher_round_trip E this_ENCRYPTION_ALGORITHM"
  shows "\<exists>envelope st1. encrypt E st s = (Inr envelope, st1) \<and> envelope \<noteq> [] \<and>
           present (secrets st1 ''byok.encryption.salt'') \<and>
           decrypt E st1 envelope = (Inr s, st1)"
proof -
  obtain key st0 where dk: "getDerivedKey E st = (key, st0)"
    by (cases "getDerivedKey E st")
  let ?iv = "randomBytes E (randomCalls st0) 16"
  let ?st1 = "st0\<lparr>randomCalls := Suc (randomCalls st0)\<rparr>"
  from cipher obtain c d where
    c: "createCipheriv E this_ENCRYPTION_ALGORITHM key ?iv = Inr c" and
    d: "createDecipheriv E this_ENCRYPTION_ALGORITHM key ?iv = Inr d" and
    cd: "\<And>p. length (snd (c p)) = 16 \<and> d (snd (c p)) (fst (c p)) = Inr p"
    unfolding cipher_round_trip_def by metis
  obtain ct tag where ct: "c (utf8 E s) = (ct, tag)" by (cases "c (utf8 E s)")
  from cd [of "utf8 E s"] ct have tag: "length tag = 16" and dec: "d tag ct = Inr (utf8 E s)"
    by simp_all
  from codecs have iv: "length ?iv = 16" and b64: "\<And>b. fromBase64 E (toBase64 E b) = b"
    and u8: "fromUtf8 E (utf8 E s) = s"
    by (simp_all add: codecs_round_trip_def)
  let ?envelope = "toBase64 E (?iv @ tag @ ct)"
  have enc: "encrypt E st s = (Inr ?envelope, ?st1)"
    using dk c ct by (simp add: encrypt_def Let_def)
  from getDerivedKey_salt [OF codecs dk]
  have salt: "present (secrets ?st1 ''byok.encryption.salt'')"
    and key: "key = pbkdf2Sync E (machineId E) (the (secrets ?st1 ''byok.encryption.salt''))"
    by simp_all
  from getDerivedKey_present [OF salt, of E] key
  have again: "getDerivedKey E ?st1 = (key, ?st1)" by simp
  have "decrypt E ?st1 ?envelope = (Inr s, ?st1)"
    using again d dec iv tag b64 u8 by (simp add: decrypt_def Let_def)
  moreover from iv have "?iv @ tag @ ct \<noteq> []" by auto
  with codecs have "?envelope \<noteq> []" by (simp add: codecs_round_trip_def)
  ultimately show ?thesis using enc salt by blast
qed

text \<open>The stand-in environment meets these requirements, whatever the algorithm argument.\<close>

lemma byte_of_char: "char_of (unat (of_nat (of_char c) :: 8 word)) = c"
  by (simp add: unat_of_nat)

lemma char_of_byte: "(of_nat (of_char (char_of (unat b))) :: 8 word) = b"
proof -
  have "unat b < 2 ^ LENGTH(8)" by (rule unsigned_less)
  then have "unat b mod 256 = unat b" by simp
  then show ?thesis by simp
qed

lemma map_char_of_byte: "map (\<lambda>x. (of_nat (of_char (char_of (unat x))) :: 8 word)) b = b"
  by (induction b) (simp_all only: list.map char_of_byte)

lemma map_byte_of_char: "map (\<lambda>c. char_of (unat (of_nat (of_char c) :: 8 word))) s = s"
  by (induction s) (simp_all only: list.map byte_of_char)

lemma mock_env_round_trips:
  "codecs_round_trip mock_env \<and> cipher_round_trip mock_env algorithm"
  using map_char_of_byte map_byte_of_char
  by (simp add: codecs_round_trip_def cipher_round_trip_def mock_env_def mock_cipher_def
        mock_decipher_def o_def del: of_char_of)

text \<open>
  Under the argument check of Node the requirement holds for the static member, read
  through the class, and fails for the value that the code passes.
\<close>

lemma static_member_would_do:
  "cipher_round_trip strict_env (Str ENCRYPTION_ALGORITHM) \<and>
   \<not> cipher_round_trip strict_env this_ENCRYPTION_ALGORITHM"
  by (simp add: cipher_round_trip_def strict_env_def mock_env_def mock_cipher_def
        mock_decipher_def this_ENCRYPTION_ALGORITHM_def o_def)

subsection \<open>Tamper detection\<close>

text \<open>
  The stand-in with the authenticating cipher meets the requirements of the round trip
  and of tamper detection.
\<close>

lemma sum_list_update:
  fixes xs :: bytes
  shows "i < length xs \<Longrightarrow> sum_list (xs[i := b]) = sum_list xs - xs ! i + b"
proof (induction xs arbitrary: i)
  case Nil
  then show ?case by simp
next
  case (Cons x xs)
  then show ?case by (cases i) simp_all
qed

lemma checksum_detects:
  "i < length ct \<Longrightarrow> b \<noteq> ct ! i \<Longrightarrow> checksum (ct[i := b]) \<noteq> checksum ct"
  by (simp add: checksum_def sum_list_update)

lemma tag_update_differs: "i < length tag \<Longrightarrow> b \<noteq> tag ! i \<Longrightarrow> tag[i := b] \<noteq> tag"
  by (metis nth_list_update_eq)

lemma sealed_env_codecs: "codecs_round_trip sealed_env"
  using mock_env_round_trips [of Undefined]
  by (simp add: codecs_round_trip_def sealed_env_def)

lemma sealed_env_round_trips: "cipher_round_trip sealed_env algorithm"
  by (simp add: cipher_round_trip_def sealed_env_def sealed_cipher_def sealed_decipher_def
        checksum_def o_def)

lemma sealed_env_key_length: "length (pbkdf2Sync sealed_env password salt) = 32"
  by (simp add: sealed_env_def)

lemma checksum_length: "length (checksum ct) = 16"
  by (simp add: checksum_def)

lemma sealed_env_authenticates: "authenticating sealed_env algorithm"
proof -
  have t: "\<exists>e. sealed_decipher key ((checksum ct)[i := b]) ct = Inl e"
    if "i < 16" "b \<noteq> checksum ct ! i" for key ct i b
    using that tag_update_differs [of i "checksum ct" b]
    by (simp add: sealed_decipher_def checksum_length)
  have c: "\<exists>e. sealed_decipher key (checksum ct) (ct[i := b]) = Inl e"
    if "i < length ct" "b \<noteq> ct ! i" for key ct i b
    using checksum_detects [OF that] by (auto simp: sealed_decipher_def)
  have k: "\<exists>e. sealed_decipher key' tag (key @ body) = Inl e"
    if "length key' = 32" "length key = 32" "key' \<noteq> key" for key key' tag body
    using that by (simp add: sealed_decipher_def)
  have "createCipheriv sealed_env algorithm key iv = Inr (sealed_cipher key)"
    "createDecipheriv sealed_env algorithm key iv = Inr (sealed_decipher key)" for key iv
    by (simp_all add: sealed_env_def)
  note create = this
  show ?thesis
    unfolding authenticating_def
  proof (intro conjI allI impI)
    fix password salt
    show "length (pbkdf2Sync sealed_env password salt) = 32" by (rule sealed_env_key_length)
  next
    fix key iv :: bytes
    assume len: "length key = 32"
    show "\<exists>cipher decipher.
            createCipheriv sealed_env algorithm key iv = Inr cipher \<and>
            createDecipheriv sealed_env algorithm key iv = Inr decipher \<and>
            (\<forall>plaintext.
               length (snd (cipher plaintext)) = 16 \<and>
               (\<forall>i b. i < 16 \<and> b \<noteq> snd (cipher plaintext) ! i \<longrightarrow>
                  (\<exists>e. decipher ((snd (cipher plaintext))[i := b]) (fst (cipher plaintext)) = Inl e)) \<and>
               (\<forall>i b. i < length (fst (cipher plaintext)) \<and> b \<noteq> fst (cipher plaintext) ! i \<longrightarrow>
                  (\<exists>e. decipher (snd (cipher plaintext)) ((fst (cipher plaintext))[i := b]) = Inl e)) \<and>
               (\<forall>key'. length key' = 32 \<and> key' \<noteq> key \<longrightarrow>
                  (case createDecipheriv sealed_env algorithm key' iv of
                     Inl e \<Rightarrow> True
                   | Inr other \<Rightarrow>
                       (\<exists>e. other (snd (cipher plaintext)) (fst (cipher plaintext)) = Inl e))))"
      unfolding create
      using t c k [OF _ len]
      by (intro exI [of _ "sealed_cipher key"] exI [of _ "sealed_decipher key"])
         (simp add: sealed_cipher_def checksum_length)
  qed
qed

text \<open>
  What \<open>encrypt\<close> produced when it resolved, and what \<open>decrypt\<close> does with a blob of an
  initialisation vector, a tag and a ciphertext: bytes 0 to 15, bytes 16 to 31 and
  the rest.
\<close>

lemma encrypt_envelope:
  assumes "encrypt E st s = (Inr envelope, st1)"
  shows "\<exists>st0 cipher.
           getDerivedKey E st = (fst (getDerivedKey E st), st0) \<and>
           st1 = st0\<lparr>randomCalls := Suc (randomCalls st0)\<rparr> \<and>
           createCipheriv E this_ENCRYPTION_ALGORITHM (fst (getDerivedKey E st))
             (randomBytes E (randomCalls st0) 16) = Inr cipher \<and>
           envelope = toBase64 E (randomBytes E (randomCalls st0) 16 @
                        snd (cipher (utf8 E s)) @ fst (cipher (utf8 E s)))"
  using assms
  by (cases "getDerivedKey E st")
     (auto simp: encrypt_def Let_def split: sum.splits prod.splits)

lemma getDerivedKey_length:
  "authenticating E algorithm \<Longrightarrow> length (fst (getDerivedKey E st)) = 32"
  by (simp add: authenticating_def getDerivedKey_def Let_def)

lemma decrypt_slices:
  assumes "getDerivedKey E st = (key, st1)"
    and "fromBase64 E blob = iv @ tag @ ct"
    and "length iv = 16" and "length tag = 16"
  shows "decrypt E st blob =
           (case createDecipheriv E this_ENCRYPTION_ALGORITHM key iv of
              Inl e \<Rightarrow> (Inl (Lib e), st1)
            | Inr decipher \<Rightarrow>
                (case decipher tag ct of
                   Inl e \<Rightarrow> (Inl (Lib e), st1)
                 | Inr decrypted \<Rightarrow> (Inr (fromUtf8 E decrypted), st1)))"
  using assms by (simp add: decrypt_def Let_def split: sum.splits)

lemma authenticatingD:
  assumes auth: "authenticating E algorithm" and len: "length key = 32"
    and c: "createCipheriv E algorithm key iv = Inr c"
  shows "\<exists>d. createDecipheriv E algorithm key iv = Inr d \<and>
           length (snd (c p)) = 16 \<and>
           (\<forall>i b. i < 16 \<and> b \<noteq> snd (c p) ! i \<longrightarrow> (\<exists>e. d ((snd (c p))[i := b]) (fst (c p)) = Inl e)) \<and>
           (\<forall>i b. i < length (fst (c p)) \<and> b \<noteq> fst (c p) ! i \<longrightarrow>
              (\<exists>e. d (snd (c p)) ((fst (c p))[i := b]) = Inl e)) \<and>
           (\<forall>key'. length key' = 32 \<and> key' \<noteq> key \<longrightarrow>
              (case createDecipheriv E algorithm key' iv of
                 Inl e \<Rightarrow> True
               | Inr other \<Rightarrow> (\<exists>e. other (snd (c p)) (fst (c p)) = Inl e)))"
proof -
  from auth [unfolded authenticating_def, THEN conjunct2, rule_format, OF len, of iv]
  obtain c' d where c': "createCipheriv E algorithm key iv = Inr c'"
    and d: "createDecipheriv E algorithm key iv = Inr d"
    and all: "\<forall>plaintext.
               length (snd (c' plaintext)) = 16 \<and>
               (\<forall>i b. i < 16 \<and> b \<noteq> snd (c' plaintext) ! i \<longrightarrow>
                  (\<exists>e. d ((snd (c' plaintext))[i := b]) (fst (c' plaintext)) = Inl e)) \<and>
               (\<forall>i b. i < length (fst (c' plaintext)) \<and> b \<noteq> fst (c' plaintext) ! i \<longrightarrow>
                  (\<exists>e. d (snd (c' plaintext)) ((fst (c' plaintext))[i := b]) = Inl e)) \<and>
               (\<forall>key'. length key' = 32 \<and> key' \<noteq> key \<longrightarrow>
                  (case createDecipheriv E algorithm key' iv of
                     Inl e \<Rightarrow> True
                   | Inr other \<Rightarrow>
                       (\<exists>e. other (snd (c' plaintext)) (fst (c' plaintext)) = Inl e)))"
    by (elim exE conjE)
  from c c' have eq: "c' = c" by simp
  from all [THEN spec, of p] d show ?thesis unfolding eq by blast
qed

lemma update_envelope:
  assumes "length iv = 16" and "length tag = 16" and "16 \<le> i"
  shows "(iv @ tag @ ct)[i := b] =
           (if i < 32 then iv @ tag[i - 16 := b] @ ct else iv @ tag @ ct[i - 32 := b])"
  using assms by (auto simp: list_update_append)

lemma nth_envelope:
  assumes "length iv = 16" and "length tag = 16" and "16 \<le> i"
  shows "(iv @ tag @ ct) ! i = (if i < 32 then tag ! (i - 16) else ct ! (i - 32))"
  using assms by (auto simp: nth_append)

text \<open>
  Claim C8. \<open>decrypt\<close> fails closed. In an environment that checks the algorithm
  argument as Node does it rejects every blob, so it returns no plaintext at all, be
  the blob tampered or not and whatever the key. In an environment in which the cipher
  is created and authenticates, take an envelope that \<open>encrypt\<close> produced: \<open>decrypt\<close>
  under the same derived key rejects every blob whose bytes are those of the envelope
  with one byte of the tag or of the ciphertext (byte 16 or later) changed, and
  \<open>decrypt\<close> under another derived key, on whatever machine and with whatever salt,
  rejects the envelope.
\<close>

theorem decrypt_fails_closed:
  "(rejects_missing_algorithm E \<longrightarrow> fst (decrypt E st blob) = Inl (Lib ERR_INVALID_ARG_TYPE)) \<and>
   (codecs_round_trip E \<and> authenticating E this_ENCRYPTION_ALGORITHM \<and>
    encrypt E st s = (Inr envelope, st1) \<longrightarrow>
      (\<forall>tampered i b.
         16 \<le> i \<and> i < length (fromBase64 E envelope) \<and> b \<noteq> fromBase64 E envelope ! i \<and>
         fromBase64 E tampered = (fromBase64 E envelope)[i := b] \<longrightarrow>
           (\<exists>e. fst (decrypt E st1 tampered) = Inl e)) \<and>
      (\<forall>m st2.
         fst (getDerivedKey (E\<lparr>machineId := m\<rparr>) st2) \<noteq> fst (getDerivedKey E st) \<longrightarrow>
           (\<exists>e. fst (decrypt (E\<lparr>machineId := m\<rparr>) st2 envelope) = Inl e)))"
proof (intro conjI impI)
  assume "rejects_missing_algorithm E"
  then show "fst (decrypt E st blob) = Inl (Lib ERR_INVALID_ARG_TYPE)" by (rule decrypt_rejected)
next
  assume h: "codecs_round_trip E \<and> authenticating E this_ENCRYPTION_ALGORITHM \<and>
             encrypt E st s = (Inr envelope, st1)"
  then have codecs: "codecs_round_trip E" and auth: "authenticating E this_ENCRYPTION_ALGORITHM"
    and enc: "encrypt E st s = (Inr envelope, st1)" by simp_all
  let ?key = "fst (getDerivedKey E st)"
  from encrypt_envelope [OF enc] obtain st0 c where
    dk: "getDerivedKey E st = (?key, st0)" and
    st1: "st1 = st0\<lparr>randomCalls := Suc (randomCalls st0)\<rparr>" and
    c: "createCipheriv E this_ENCRYPTION_ALGORITHM ?key (randomBytes E (randomCalls st0) 16) = Inr c" and
    env: "envelope = toBase64 E (randomBytes E (randomCalls st0) 16 @
                        snd (c (utf8 E s)) @ fst (c (utf8 E s)))" by blast
  let ?iv = "randomBytes E (randomCalls st0) 16"
  let ?tag = "snd (c (utf8 E s))"
  let ?ct = "fst (c (utf8 E s))"
  from codecs have iv: "length ?iv = 16" and b64: "\<And>b. fromBase64 E (toBase64 E b) = b"
    by (simp_all add: codecs_round_trip_def)
  from env b64 have combined: "fromBase64 E envelope = ?iv @ ?tag @ ?ct" by simp
  have klen: "length ?key = 32" by (rule getDerivedKey_length [OF auth])
  from authenticatingD [OF auth klen c, of "utf8 E s"] obtain d where
    d: "createDecipheriv E this_ENCRYPTION_ALGORITHM ?key ?iv = Inr d" and
    tag: "length ?tag = 16" and
    tag_tamper: "\<And>i b. i < 16 \<Longrightarrow> b \<noteq> ?tag ! i \<Longrightarrow> \<exists>e. d (?tag[i := b]) ?ct = Inl e" and
    ct_tamper: "\<And>i b. i < length ?ct \<Longrightarrow> b \<noteq> ?ct ! i \<Longrightarrow> \<exists>e. d ?tag (?ct[i := b]) = Inl e" and
    wrong_key: "\<And>key'. length key' = 32 \<Longrightarrow> key' \<noteq> ?key \<Longrightarrow>
                  (case createDecipheriv E this_ENCRYPTION_ALGORITHM key' ?iv of
                     Inl e \<Rightarrow> True
                   | Inr other \<Rightarrow> (\<exists>e. other ?tag ?ct = Inl e))"
    by blast
  from getDerivedKey_salt [OF codecs dk]
  have salt: "present (secrets st1 ''byok.encryption.salt'')"
    and key: "?key = pbkdf2Sync E (machineId E) (the (secrets st1 ''byok.encryption.salt''))"
    by (simp_all add: st1)
  from getDerivedKey_present [OF salt, of E] key
  have again: "getDerivedKey E st1 = (?key, st1)" by simp
  show "\<forall>tampered i b.
         16 \<le> i \<and> i < length (fromBase64 E envelope) \<and> b \<noteq> fromBase64 E envelope ! i \<and>
         fromBase64 E tampered = (fromBase64 E envelope)[i := b] \<longrightarrow>
           (\<exists>e. fst (decrypt E st1 tampered) = Inl e)"
  proof (intro allI impI)
    fix tampered i b
    assume a: "16 \<le> i \<and> i < length (fromBase64 E envelope) \<and> b \<noteq> fromBase64 E envelope ! i \<and>
               fromBase64 E tampered = (fromBase64 E envelope)[i := b]"
    then have i: "16 \<le> i" and len: "i < length (?iv @ ?tag @ ?ct)"
      and b: "b \<noteq> (?iv @ ?tag @ ?ct) ! i"
      and t: "fromBase64 E tampered = (?iv @ ?tag @ ?ct)[i := b]"
      by (simp_all add: combined)
    show "\<exists>e. fst (decrypt E st1 tampered) = Inl e"
    proof (cases "i < 32")
      case True
      with i b iv tag have "b \<noteq> ?tag ! (i - 16)" and "i - 16 < 16"
        by (simp_all add: nth_envelope)
      from tag_tamper [OF this(2) this(1)] obtain e where
        e: "d (?tag[i - 16 := b]) ?ct = Inl e" by blast
      from t True have "fromBase64 E tampered = ?iv @ ?tag[i - 16 := b] @ ?ct"
        by (simp add: update_envelope [OF iv tag i])
      from decrypt_slices [OF again this iv] tag d e show ?thesis by simp
    next
      case False
      with i b iv tag len have "b \<noteq> ?ct ! (i - 32)" and "i - 32 < length ?ct"
        by (simp_all add: nth_envelope)
      from ct_tamper [OF this(2) this(1)] obtain e where
        e: "d ?tag (?ct[i - 32 := b]) = Inl e" by blast
      from t False have "fromBase64 E tampered = ?iv @ ?tag @ ?ct[i - 32 := b]"
        by (simp add: update_envelope [OF iv tag i])
      from decrypt_slices [OF again this iv tag] d e show ?thesis by simp
    qed
  qed
  show "\<forall>m st2.
         fst (getDerivedKey (E\<lparr>machineId := m\<rparr>) st2) \<noteq> fst (getDerivedKey E st) \<longrightarrow>
           (\<exists>e. fst (decrypt (E\<lparr>machineId := m\<rparr>) st2 envelope) = Inl e)"
  proof (intro allI impI)
    fix m and st2 :: state
    let ?E = "E\<lparr>machineId := m\<rparr>"
    assume ne: "fst (getDerivedKey ?E st2) \<noteq> fst (getDerivedKey E st)"
    obtain key2 st3 where dk2: "getDerivedKey ?E st2 = (key2, st3)"
      by (cases "getDerivedKey ?E st2")
    from auth have "authenticating ?E this_ENCRYPTION_ALGORITHM"
      by (simp add: authenticating_def)
    from getDerivedKey_length [OF this, of st2] dk2 have len2: "length key2 = 32" by simp
    from ne dk2 have "key2 \<noteq> ?key" by simp
    from wrong_key [OF len2 this]
    have w: "case createDecipheriv ?E this_ENCRYPTION_ALGORITHM key2 ?iv of
               Inl e \<Rightarrow> True
             | Inr other \<Rightarrow> (\<exists>e. other ?tag ?ct = Inl e)" by simp
    from combined have "fromBase64 ?E envelope = ?iv @ ?tag @ ?ct" by simp
    from decrypt_slices [OF dk2 this iv tag] w show "\<exists>e. fst (decrypt ?E st2 envelope) = Inl e"
      by (auto split: sum.splits)
  qed
qed

text \<open>
  In the stand-in a key begins with the machine identifier, and an envelope has 64
  bytes more than the secret has characters.
\<close>

lemma sealed_env_machine: "sealed_env\<lparr>machineId := ''machine''\<rparr> = sealed_env"
  by (simp add: sealed_env_def mock_env_def)

lemma sealed_key_head:
  "hd (fst (getDerivedKey (sealed_env\<lparr>machineId := c # m\<rparr>) st)) = of_nat (of_char c)"
  by (simp add: getDerivedKey_def Let_def sealed_env_def)

lemma sealed_envelope_length:
  assumes "encrypt sealed_env st s = (Inr envelope, st1)"
  shows "length (fromBase64 sealed_env envelope) = 64 + length s"
proof -
  from encrypt_envelope [OF assms] obtain st0 c where
    "getDerivedKey sealed_env st = (fst (getDerivedKey sealed_env st), st0)" and
    "st1 = st0\<lparr>randomCalls := Suc (randomCalls st0)\<rparr>" and
    c: "createCipheriv sealed_env this_ENCRYPTION_ALGORITHM (fst (getDerivedKey sealed_env st))
          (randomBytes sealed_env (randomCalls st0) 16) = Inr c" and
    env: "envelope = toBase64 sealed_env (randomBytes sealed_env (randomCalls st0) 16 @
                        snd (c (utf8 sealed_env s)) @ fst (c (utf8 sealed_env s)))" by blast
  from c have c': "c = sealed_cipher (fst (getDerivedKey sealed_env st))"
    by (simp add: sealed_env_def)
  from sealed_env_codecs have "\<And>b. fromBase64 sealed_env (toBase64 sealed_env b) = b"
    and "\<And>calls n. length (randomBytes sealed_env calls n) = n"
    by (simp_all add: codecs_round_trip_def)
  with env have "length (fromBase64 sealed_env envelope) =
      16 + length (snd (c (utf8 sealed_env s))) + length (fst (c (utf8 sealed_env s)))"
    by simp
  also have "length (snd (c (utf8 sealed_env s))) = 16"
    by (simp add: c' sealed_cipher_def checksum_length)
  also have "length (fst (c (utf8 sealed_env s))) = 32 + length s"
    using getDerivedKey_length [OF sealed_env_authenticates, where st = st]
    by (simp add: c' sealed_cipher_def) (simp add: sealed_env_def mock_env_def)
  finally show ?thesis by simp
qed

text \<open>
  Claim C8 at a blob under the argument check of Node, and at the envelope of
  \<open>test-api-key-12345-abcdef\<close> in the stand-in with the authenticating cipher: the
  envelope decrypts to the secret, and is rejected with the first byte of its tag
  changed, with a byte of its ciphertext changed, and on another machine.
\<close>

theorem decrypt_fails_closed_witness:
  "rejects_missing_algorithm strict_env \<and>
   fst (decrypt strict_env empty_state ''AAAA'') = Inl (Lib ERR_INVALID_ARG_TYPE) \<and>
   codecs_round_trip sealed_env \<and> authenticating sealed_env this_ENCRYPTION_ALGORITHM \<and>
   (\<exists>envelope st1.
      encrypt sealed_env empty_state ''test-api-key-12345-abcdef'' = (Inr envelope, st1) \<and>
      fst (decrypt sealed_env st1 envelope) = Inr ''test-api-key-12345-abcdef'' \<and>
      length (fromBase64 sealed_env envelope) = 89 \<and>
      (\<exists>e. fst (decrypt sealed_env st1
                  (toBase64 sealed_env ((fromBase64 sealed_env envelope)
                     [16 := fromBase64 sealed_env envelope ! 16 + 1]))) = Inl e) \<and>
      (\<exists>e. fst (decrypt sealed_env st1
                  (toBase64 sealed_env ((fromBase64 sealed_env envelope)
                     [70 := fromBase64 sealed_env envelope ! 70 + 1]))) = Inl e) \<and>
      (\<exists>e. fst (decrypt (sealed_env\<lparr>machineId := ''other''\<rparr>) st1 envelope) = Inl e))"
proof -
  let ?s = "''test-api-key-12345-abcdef''"
  have r: "rejects_missing_algorithm strict_env"
    by (simp add: rejects_missing_algorithm_def strict_env_def)
  note codecs = sealed_env_codecs
  note auth = sealed_env_authenticates [of this_ENCRYPTION_ALGORITHM]
  from round_trip_when_cipher_created [OF codecs sealed_env_round_trips, of empty_state ?s]
  obtain envelope st1 where enc: "encrypt sealed_env empty_state ?s = (Inr envelope, st1)"
    and dec: "decrypt sealed_env st1 envelope = (Inr ?s, st1)" by blast
  let ?bytes = "fromBase64 sealed_env envelope"
  have len: "length ?bytes = 89" using sealed_envelope_length [OF enc] by simp
  from codecs have b64: "\<And>b. fromBase64 sealed_env (toBase64 sealed_env b) = b"
    by (simp add: codecs_round_trip_def)
  have node: "fst (decrypt strict_env empty_state ''AAAA'') = Inl (Lib ERR_INVALID_ARG_TYPE)"
    using decrypt_fails_closed [where E = strict_env and st = empty_state and blob = "''AAAA''"] r
    by blast
  note closed = decrypt_fails_closed [where E = sealed_env and st = empty_state and s = ?s
      and envelope = envelope and ?st1.0 = st1, THEN conjunct2, THEN mp,
      OF conjI [OF codecs conjI [OF auth enc]]]
  have tag: "\<exists>e. fst (decrypt sealed_env st1 (toBase64 sealed_env (?bytes[16 := ?bytes ! 16 + 1])))
               = Inl e"
    using closed [THEN conjunct1, rule_format,
        of 16 "?bytes ! 16 + 1" "toBase64 sealed_env (?bytes[16 := ?bytes ! 16 + 1])"] len b64
    by simp
  have ct: "\<exists>e. fst (decrypt sealed_env st1 (toBase64 sealed_env (?bytes[70 := ?bytes ! 70 + 1])))
               = Inl e"
    using closed [THEN conjunct1, rule_format,
        of 70 "?bytes ! 70 + 1" "toBase64 sealed_env (?bytes[70 := ?bytes ! 70 + 1])"] len b64
    by simp
  have "hd (fst (getDerivedKey (sealed_env\<lparr>machineId := ''other''\<rparr>) st1))
          \<noteq> hd (fst (getDerivedKey (sealed_env\<lparr>machineId := ''machine''\<rparr>) empty_state))"
    unfolding sealed_key_head by simp
  then have "fst (getDerivedKey (sealed_env\<lparr>machineId := ''other''\<rparr>) st1)
          \<noteq> fst (getDerivedKey sealed_env empty_state)"
    unfolding sealed_env_machine by auto
  from closed [THEN conjunct2, rule_format, OF this]
  have key: "\<exists>e. fst (decrypt (sealed_env\<lparr>machineId := ''other''\<rparr>) st1 envelope) = Inl e" .
  from r node codecs auth enc dec len tag ct key show ?thesis by simp
qed

subsection \<open>Storing a key\<close>

lemma isValidApiKey_iff:
  "isValidApiKey apiKey \<longleftrightarrow> \<not> (length apiKey < 20 \<or> (\<exists>c \<in> set apiKey. c \<notin> set key_chars))"
  by (auto simp: isValidApiKey_def list_all_iff)

text \<open>
  Claim C7. \<open>storeKey\<close> rejects with the error \<open>Invalid API key format\<close> exactly when the
  secret is shorter than 20 characters or has a character outside
  \<open>[a-zA-Z0-9_-]\<close>; and then the state is the one it started from: no envelope, no
  rotation record, no salt.
\<close>

theorem storeKey_format_error:
  "(fst (storeKey E now st modelId apiKey) = Inl (Error ''Invalid API key format''))
     = (length apiKey < 20 \<or> (\<exists>c \<in> set apiKey. c \<notin> set key_chars)) \<and>
   (length apiKey < 20 \<or> (\<exists>c \<in> set apiKey. c \<notin> set key_chars) \<longrightarrow>
      storeKey E now st modelId apiKey = (Inl (Error ''Invalid API key format''), st))"
proof (cases "isValidApiKey apiKey")
  case True
  then show ?thesis
    using encrypt_not_Error [of E st apiKey "''Invalid API key format''"]
    by (auto simp: storeKey_def isValidApiKey_iff split: prod.splits sum.splits)
next
  case False
  then show ?thesis by (auto simp: storeKey_def isValidApiKey_iff)
qed

text \<open>
  Claim C7 at the key \<open>short\<close> of the test suite and at a key of 24 characters with a
  dot in it.
\<close>

theorem storeKey_format_error_witness:
  "storeKey mock_env 0 empty_state ''test-model'' ''short'' =
     (Inl (Error ''Invalid API key format''), empty_state) \<and>
   storeKey mock_env 0 empty_state ''test-model'' ''sk-0123456789abcdef.ghij'' =
     (Inl (Error ''Invalid API key format''), empty_state)"
  using storeKey_format_error [of mock_env 0 empty_state "''test-model''" "''short''"]
        storeKey_format_error [of mock_env 0 empty_state "''test-model''"
          "''sk-0123456789abcdef.ghij''"]
  by (simp add: key_chars_def)

text \<open>
  Claim C9. A \<open>storeKey\<close> that resolves has written, under \<open>byok.rotation.<id>\<close>, the
  JSON text of the record with \<open>lastRotated\<close> the current time, \<open>rotationReminder\<close>
  true and \<open>autoRotateAfterDays\<close> 90, whatever was there before. A \<open>storeKey\<close> that
  rejects has left the entry \<open>byok.key.<id>\<close> as it was: no envelope is stored without
  the rotation record.
\<close>

theorem storeKey_writes_rotation:
  "(fst (storeKey E now st modelId apiKey) = Inr () \<longrightarrow>
      secrets (snd (storeKey E now st modelId apiKey)) (''byok.rotation.'' @ modelId) =
        Some (JSON_stringify E
                \<lparr> lastRotated = now, rotationReminder = True, autoRotateAfterDays = Some 90 \<rparr>)) \<and>
   (fst (storeKey E now st modelId apiKey) \<noteq> Inr () \<longrightarrow>
      secrets (snd (storeKey E now st modelId apiKey)) (''byok.key.'' @ modelId) =
        secrets st (''byok.key.'' @ modelId))"
  by (auto simp: storeKey_def initializeRotation_def storage_store_def Let_def
           split: prod.splits sum.splits dest: encrypt_secrets [where k = "''byok.key.'' @ modelId"])

text \<open>
  Claim C9 in the stand-in environment: a key of 25 characters is stored with its
  rotation record, the key \<open>short\<close> is not stored at all.
\<close>

theorem storeKey_writes_rotation_witness:
  "fst (storeKey mock_env 5 empty_state ''test-model'' ''test-api-key-12345-abcdef'') = Inr () \<and>
   secrets (snd (storeKey mock_env 5 empty_state ''test-model'' ''test-api-key-12345-abcdef''))
      ''byok.rotation.test-model'' =
     Some (JSON_stringify mock_env
             \<lparr> lastRotated = 5, rotationReminder = True, autoRotateAfterDays = Some 90 \<rparr>) \<and>
   fst (storeKey mock_env 5 empty_state ''test-model'' ''short'') \<noteq> Inr () \<and>
   secrets (snd (storeKey mock_env 5 empty_state ''test-model'' ''short'')) ''byok.key.test-model''
     = None"
proof -
  have ok: "fst (storeKey mock_env 5 empty_state ''test-model'' ''test-api-key-12345-abcdef'')
              = Inr ()"
    by (simp add: storeKey_def isValidApiKey_def key_chars_def encrypt_def getDerivedKey_def
          present_def empty_state_def mock_env_def Let_def storage_store_def mock_cipher_def)
  have bad: "fst (storeKey mock_env 5 empty_state ''test-model'' ''short'') \<noteq> Inr ()"
    by (simp add: storeKey_def isValidApiKey_def)
  from storeKey_writes_rotation [of mock_env 5 empty_state "''test-model''"
         "''test-api-key-12345-abcdef''"]
       storeKey_writes_rotation [of mock_env 5 empty_state "''test-model''" "''short''"]
       ok bad
  show ?thesis by (simp add: empty_state_def)
qed

text \<open>With the argument check of Node no valid key is ever stored.\<close>

lemma storeKey_rejected:
  "rejects_missing_algorithm E \<Longrightarrow> isValidApiKey apiKey \<Longrightarrow>
   fst (storeKey E now st modelId apiKey) = Inl (Lib ERR_INVALID_ARG_TYPE)"
  using encrypt_without_algorithm [of E st apiKey]
  by (auto simp: storeKey_def)

subsection \<open>Audit\<close>

text \<open>What \<open>updateAudit\<close> does to an entry, and the two counts it gives on a fresh one.\<close>

lemma updateAudit_counts:
  "getAudit E st modelId = Some a \<Longrightarrow>
   getAudit E (updateAudit E now modelId success st) modelId =
     Some (a\<lparr> lastUsed := now, requestCount := requestCount a + 1,
              failedAttempts := (if success then failedAttempts a else failedAttempts a + 1) \<rparr>)"
  by (simp add: updateAudit_def getAudit_def Let_def)

lemma updateAudit_accumulates:
  "getAudit E st modelId = None \<Longrightarrow>
   getAudit E (updateAudit E t2 modelId False (updateAudit E t1 modelId True st)) modelId =
     Some \<lparr> keyId = hashKeyId E modelId, lastUsed = t2, requestCount = 2, failedAttempts = 1 \<rparr>"
  by (simp add: updateAudit_def getAudit_def Let_def)

text \<open>
  Claim C4 says that a failed access increments \<open>requestCount\<close> and \<open>failedAttempts\<close>.
  \<open>updateAudit\<close> would do so if it were called with \<open>success = false\<close>, but no caller
  does: a \<open>getKey\<close> that rejects, for whatever reason, leaves the audit entry of the
  identifier exactly as it was.
\<close>

theorem getKey_failure_not_audited:
  "fst (getKey E now st modelId) = Inl e \<Longrightarrow>
   getAudit E (snd (getKey E now st modelId)) modelId = getAudit E st modelId"
proof (cases "present (secrets st (''byok.key.'' @ modelId))")
  case False
  then show ?thesis by (simp add: getKey_def)
next
  case True
  assume failed: "fst (getKey E now st modelId) = Inl e"
  obtain r st1 where d: "decrypt E st (the (secrets st (''byok.key.'' @ modelId))) = (r, st1)"
    by (cases "decrypt E st (the (secrets st (''byok.key.'' @ modelId)))")
  have "keyAudits st1 = keyAudits st" by (rule decrypt_keyAudits [OF d])
  with True failed d show ?thesis
    by (cases r) (simp_all add: getKey_def getAudit_def)
qed

text \<open>
  Claim C4 after one recorded success: a failed access to the same identifier leaves
  \<open>requestCount = 1\<close> and \<open>failedAttempts = 0\<close>, where the claim has 2 and 1.
\<close>

theorem getKey_failure_not_audited_witness:
  "fst (getKey mock_env 2000 one_success ''test-model'')
     = Inl (Error ''No API key found for model: test-model'') \<and>
   getAudit mock_env (snd (getKey mock_env 2000 one_success ''test-model'')) ''test-model''
     = Some \<lparr> keyId = ''test-model'', lastUsed = 1000, requestCount = 1, failedAttempts = 0 \<rparr>"
proof -
  have f: "fst (getKey mock_env 2000 one_success ''test-model'')
     = Inl (Error ''No API key found for model: test-model'')"
    by (simp add: getKey_def one_success_def updateAudit_def empty_state_def present_def Let_def)
  from getKey_failure_not_audited [OF f] f show ?thesis
    by (simp add: one_success_def updateAudit_def getAudit_def hashKeyId_def mock_env_def
          empty_state_def Let_def)
qed

subsection \<open>Rotation\<close>

text \<open>On a \<open>Date\<close>, \<open>daysSince\<close> counts whole days; 90 days is the boundary of the claim.\<close>

lemma daysSince_Date: "daysSince now (DateObject t) = Inr ((now - t) div 86400000)"
  by (simp add: daysSince_def)

lemma daysSince_boundary:
  "daysSince (t + 90 * 86400000) (DateObject t) = Inr 90"
  "daysSince (t + 90 * 86400000 - 1) (DateObject t) = Inr 89"
  by (simp_all add: daysSince_def)

text \<open>
  Claim C5 says that \<open>checkRotationNeeded\<close> returns true once 90 days have passed.
  It never returns true, whatever the storage holds and whatever the time: the
  \<open>lastRotated\<close> it hands to \<open>daysSince\<close> comes out of \<open>JSON.parse\<close> and is no \<open>Date\<close>,
  so a record with a rotation policy makes the call throw.
\<close>

theorem checkRotationNeeded_never_true:
  "checkRotationNeeded E now st modelId \<noteq> Inr True"
  by (auto simp: checkRotationNeeded_def daysSince_def split: sum.splits)

text \<open>
  The record that \<open>initializeRotation\<close> wrote at time \<open>t0\<close>, read back at any later
  time: \<open>checkRotationNeeded\<close> rejects with a \<open>TypeError\<close>.
\<close>

lemma checkRotationNeeded_after_store:
  assumes "JSON_parse E (JSON_stringify E
              \<lparr> lastRotated = t0, rotationReminder = True, autoRotateAfterDays = Some 90 \<rparr>)
           = Inr (rotation_json isoString
              \<lparr> lastRotated = t0, rotationReminder = True, autoRotateAfterDays = Some 90 \<rparr>)"
    and "JSON_stringify E
              \<lparr> lastRotated = t0, rotationReminder = True, autoRotateAfterDays = Some 90 \<rparr> \<noteq> []"
  shows "checkRotationNeeded E now (initializeRotation E t0 modelId st) modelId
           = Inl (TypeError ''date.getTime is not a function'')"
  using assms
  by (simp add: checkRotationNeeded_def getRotationData_def initializeRotation_def
        storage_store_def present_def rotation_json_def daysSince_def nullish_def Let_def)

lemma checkRotationNeeded_after_90_days:
  "checkRotationNeeded mock_env (90 * 86400000)
     (initializeRotation mock_env 0 ''test-model'' empty_state) ''test-model''
   = Inl (TypeError ''date.getTime is not a function'')"
  by (simp add: checkRotationNeeded_def getRotationData_def initializeRotation_def
        storage_store_def present_def daysSince_def nullish_def mock_env_def empty_state_def
        Let_def)

text \<open>
  Claim C5 at the record written 90 days before the check, with its policy of 90 days:
  the check does not return true, it rejects.
\<close>

theorem checkRotationNeeded_never_true_witness:
  "checkRotationNeeded mock_env (90 * 86400000)
     (initializeRotation mock_env 0 ''test-model'' empty_state) ''test-model'' \<noteq> Inr True \<and>
   checkRotationNeeded mock_env (90 * 86400000)
     (initializeRotation mock_env 0 ''test-model'' empty_state) ''test-model''
     = Inl (TypeError ''date.getTime is not a function'')"
  using checkRotationNeeded_never_true [of mock_env "90 * 86400000"
          "initializeRotation mock_env 0 ''test-model'' empty_state" "''test-model''"]
        checkRotationNeeded_after_90_days
  by simp

lemma checkRotationNeeded_no_record:
  "\<not> present (secrets st (''byok.rotation.'' @ modelId)) \<Longrightarrow>
   checkRotationNeeded E now st modelId = Inr False"
  by (simp add: checkRotationNeeded_def getRotationData_def Let_def)

section \<open>Properties of the storage service\<close>

text \<open>
  Claim C10. When the storage holds no envelope for the identifier, no model-level
  legacy entry (for a lookup with a model) and no provider-level legacy entry, absent
  or empty alike, \<open>getAPIKey\<close> resolves with \<open>undefined\<close> and changes nothing.
\<close>

theorem getAPIKey_absent:
  "\<not> present (secrets st (''byok.key.'' @ key_identifier providerName modelId)) \<Longrightarrow>
   (present modelId \<longrightarrow> \<not> present (secrets st (legacy_model_key providerName (the modelId)))) \<Longrightarrow>
   \<not> present (secrets st (legacy_provider_key providerName)) \<Longrightarrow>
   getAPIKey E now st providerName modelId = (Inr None, st)"
  by (simp add: getAPIKey_def getKey_def migrate_provider_key_def Let_def)

text \<open>Claim C10 on an empty storage, with and without a model.\<close>

theorem getAPIKey_absent_witness:
  "getAPIKey mock_env 0 empty_state ''openai'' (Some ''gpt-4'') = (Inr None, empty_state) \<and>
   getAPIKey mock_env 0 empty_state ''openai'' None = (Inr None, empty_state)"
  using getAPIKey_absent [of empty_state "''openai''" "Some ''gpt-4''" mock_env 0]
        getAPIKey_absent [of empty_state "''openai''" None mock_env 0]
  by (simp add: empty_state_def present_def)

subsection \<open>Legacy migration\<close>

lemma migrate_provider_key_failure_secrets:
  "migrate_provider_key E now st providerName = (Inl e, st1) \<Longrightarrow>
   k \<noteq> ''byok.encryption.salt'' \<Longrightarrow> secrets st1 k = secrets st k"
  by (auto simp: migrate_provider_key_def Let_def split: prod.splits sum.splits if_splits
        dest: storeKey_failure_secrets)

lemma getAPIKey_failure_secrets:
  assumes "getAPIKey E now st providerName modelId = (Inl e, st')"
    and "k \<noteq> ''byok.encryption.salt''"
  shows "secrets st' k = secrets st k"
proof -
  obtain r st1 where g: "getKey E now st (key_identifier providerName modelId) = (r, st1)"
    by (cases "getKey E now st (key_identifier providerName modelId)")
  have s1: "secrets st1 k = secrets st k" by (rule getKey_secrets [OF g assms(2)])
  show ?thesis
  proof (cases r)
    case (Inr key)
    with g assms(1) show ?thesis by (simp add: getAPIKey_def)
  next
    case (Inl err)
    with g assms(1) s1 show ?thesis
      by (auto simp: getAPIKey_def Let_def assms(2) split: if_splits prod.splits sum.splits
            dest: storeKey_failure_secrets [where k = k]
                  migrate_provider_key_failure_secrets [where k = k])
  qed
qed

text \<open>
  The first part of claim C2 holds: a \<open>getAPIKey\<close> that rejects, and so a migration
  whose re-store failed, has deleted no legacy entry.
\<close>

lemma getAPIKey_failure_keeps_legacy:
  "getAPIKey E now st providerName modelId = (Inl e, st') \<Longrightarrow>
   secrets st' (legacy_provider_key providerName) = secrets st (legacy_provider_key providerName) \<and>
   secrets st' (legacy_model_key providerName m) = secrets st (legacy_model_key providerName m)"
proof -
  assume a: "getAPIKey E now st providerName modelId = (Inl e, st')"
  have p: "legacy_provider_key providerName \<noteq> ''byok.encryption.salt''"
    and m: "legacy_model_key providerName m \<noteq> ''byok.encryption.salt''"
    by (simp_all add: legacy_provider_key_def legacy_model_key_def)
  from getAPIKey_failure_secrets [OF a p] getAPIKey_failure_secrets [OF a m]
  show ?thesis by simp
qed








text \<open>
  Were the cipher created, as in an environment that takes any algorithm argument and
  round-trips, a stored key would be read back by \<open>getKey\<close>, and a provider-level
  legacy key found by a provider-level lookup would be migrated: it is returned, its
  legacy entry is deleted, and the next lookup with the same arguments is served by
  the new scheme.
\<close>

lemma decrypt_same_salt:
  assumes "present (secrets st ''byok.encryption.salt'')"
    and "secrets st' ''byok.encryption.salt'' = secrets st ''byok.encryption.salt''"
    and "decrypt E st envelope = (r, st)"
  shows "decrypt E st' envelope = (r, st')"
proof -
  from assms(1,2) have p': "present (secrets st' ''byok.encryption.salt'')" by simp
  from getDerivedKey_present [OF assms(1), of E] getDerivedKey_present [OF p', of E] assms(2,3)
  show ?thesis
    by (auto simp: decrypt_def Let_def split: sum.splits)
qed

lemma storeKey_then_getKey:
  assumes codecs: "codecs_round_trip E"
    and cipher: "cipher_round_trip E this_ENCRYPTION_ALGORITHM"
    and valid: "isValidApiKey apiKey"
  shows "\<exists>st1. storeKey E now st modelId apiKey = (Inr (), st1) \<and>
           (\<forall>st2::state. secrets st2 (''byok.key.'' @ modelId) = secrets st1 (''byok.key.'' @ modelId) \<and>
                  secrets st2 ''byok.encryption.salt'' = secrets st1 ''byok.encryption.salt''
                  \<longrightarrow> fst (getKey E now' st2 modelId) = Inr apiKey)"
proof -
  from round_trip_when_cipher_created [OF codecs cipher, of st apiKey]
  obtain envelope sta where enc: "encrypt E st apiKey = (Inr envelope, sta)"
    and ne: "envelope \<noteq> []"
    and salt: "present (secrets sta ''byok.encryption.salt'')"
    and dec: "decrypt E sta envelope = (Inr apiKey, sta)" by blast
  let ?st1 = "initializeRotation E now modelId (storage_store (''byok.key.'' @ modelId) envelope sta)"
  have st: "storeKey E now st modelId apiKey = (Inr (), ?st1)"
    using valid enc by (simp add: storeKey_def)
  have key1: "secrets ?st1 (''byok.key.'' @ modelId) = Some envelope"
    and salt1: "secrets ?st1 ''byok.encryption.salt'' = secrets sta ''byok.encryption.salt''"
    by (simp_all add: initializeRotation_def storage_store_def Let_def)
  {
    fix st2 :: state
    assume k2: "secrets st2 (''byok.key.'' @ modelId) = secrets ?st1 (''byok.key.'' @ modelId)"
      and s2: "secrets st2 ''byok.encryption.salt'' = secrets ?st1 ''byok.encryption.salt''"
    from decrypt_same_salt [OF salt _ dec, of st2] s2 salt1
    have "decrypt E st2 envelope = (Inr apiKey, st2)" by simp
    with k2 key1 ne have "fst (getKey E now' st2 modelId) = Inr apiKey"
      by (simp add: getKey_def present_def)
  }
  with st show ?thesis by blast
qed

lemma migrated_provider_key_is_served:
  assumes codecs: "codecs_round_trip E"
    and cipher: "cipher_round_trip E this_ENCRYPTION_ALGORITHM"
    and none: "\<not> present (secrets st (''byok.key.'' @ providerName))"
    and legacy: "secrets st (legacy_provider_key providerName) = Some apiKey"
    and valid: "isValidApiKey apiKey"
  shows "\<exists>st1. getAPIKey E now st providerName None = (Inr (Some apiKey), st1) \<and>
           secrets st1 (legacy_provider_key providerName) = None \<and>
           fst (getAPIKey E now' st1 providerName None) = Inr (Some apiKey)"
proof -
  from storeKey_then_getKey [OF codecs cipher valid, of now st providerName now']
  obtain sta where st: "storeKey E now st providerName apiKey = (Inr (), sta)"
    and served: "\<And>st2. secrets st2 (''byok.key.'' @ providerName) = secrets sta (''byok.key.'' @ providerName) \<Longrightarrow>
                  secrets st2 ''byok.encryption.salt'' = secrets sta ''byok.encryption.salt''
                  \<Longrightarrow> fst (getKey E now' st2 providerName) = Inr apiKey" by blast
  let ?st1 = "storage_delete (legacy_provider_key providerName) sta"
  from valid have "apiKey \<noteq> []" by (simp add: isValidApiKey_def)
  with none legacy st
  have first: "getAPIKey E now st providerName None = (Inr (Some apiKey), ?st1)"
    by (simp add: getAPIKey_def getKey_def key_identifier_def present_def
          migrate_provider_key_def Let_def)
  have gone: "secrets ?st1 (legacy_provider_key providerName) = None"
    by (simp add: storage_delete_def)
  have "fst (getKey E now' ?st1 providerName) = Inr apiKey"
    by (rule served) (simp_all add: storage_delete_def legacy_provider_key_def)
  then have "fst (getAPIKey E now' ?st1 providerName None) = Inr (Some apiKey)"
    by (cases "getKey E now' ?st1 providerName")
       (simp add: getAPIKey_def key_identifier_def present_def)
  with first gone show ?thesis by blast
qed

text \<open>
  Not so, in such an environment, for a provider-level legacy key found by a lookup
  for a model: it is stored under the identifier of the provider, and the next lookup
  with the same arguments resolves with \<open>undefined\<close>.
\<close>

lemma provider_fallback_is_not_served_again:
  assumes codecs: "codecs_round_trip E"
    and cipher: "cipher_round_trip E this_ENCRYPTION_ALGORITHM"
    and model: "modelId \<noteq> []"
    and none: "\<not> present (secrets st (''byok.key.'' @ providerName @ ''-'' @ modelId))"
    and no_model_key: "\<not> present (secrets st (legacy_model_key providerName modelId))"
    and legacy: "secrets st (legacy_provider_key providerName) = Some apiKey"
    and valid: "isValidApiKey apiKey"
  shows "\<exists>st1. getAPIKey E now st providerName (Some modelId) = (Inr (Some apiKey), st1) \<and>
           fst (getAPIKey E now' st1 providerName (Some modelId)) = Inr None"
proof -
  let ?id = "providerName @ ''-'' @ modelId"
  from storeKey_then_getKey [OF codecs cipher valid, of now st providerName now]
  obtain sta where st: "storeKey E now st providerName apiKey = (Inr (), sta)" by blast
  let ?st1 = "storage_delete (legacy_provider_key providerName) sta"
  from valid have ne: "apiKey \<noteq> []" by (simp add: isValidApiKey_def)
  from model none no_model_key legacy st ne
  have first: "getAPIKey E now st providerName (Some modelId) = (Inr (Some apiKey), ?st1)"
    by (simp add: getAPIKey_def getKey_def key_identifier_def present_def
          migrate_provider_key_def Let_def)
  have k1: "secrets sta (''byok.key.'' @ ?id) = secrets st (''byok.key.'' @ ?id)"
    by (rule storeKey_secrets [OF st]) (simp_all add: model)
  have k2: "secrets sta (legacy_model_key providerName modelId)
              = secrets st (legacy_model_key providerName modelId)"
    by (rule storeKey_secrets [OF st]) (simp_all add: legacy_model_key_def)
  have a: "\<not> present (secrets ?st1 (''byok.key.'' @ ?id))"
    using none k1 by (simp add: storage_delete_def legacy_provider_key_def)
  have b: "\<not> present (secrets ?st1 (legacy_model_key providerName modelId))"
    using no_model_key k2 by (simp add: storage_delete_def present_def)
  have c: "\<not> present (secrets ?st1 (legacy_provider_key providerName))"
    by (simp add: storage_delete_def present_def)
  have "getAPIKey E now' ?st1 providerName (Some modelId) = (Inr None, ?st1)"
    using a b c model
    by (simp add: getAPIKey_def getKey_def migrate_provider_key_def key_identifier_def Let_def)
       (simp add: present_def)
  with first show ?thesis by simp
qed

end
